theory Spec2Isabelle
  imports Complex_Main "HOL-Library.Word"
begin

section \<open>Values shared by the components\<close>

text \<open>
  JavaScript values that travel through the gateway as request and response bodies.
  An object is its list of own properties in insertion order.  A JavaScript \<open>number\<close>
  is modelled by the real number it denotes; the non-finite values are named where
  the code tests for them (see \<open>tia_response\<close>).
\<close>

datatype json =
    JUndefined
  | JNull
  | JBool bool
  | JNum real
  | JStr string
  | JArr "json list"
  | JObj "(string \<times> json) list"

text \<open>Property lookup \<open>obj.k\<close>: a missing property reads as \<open>undefined\<close>.\<close>

fun get_prop :: "json \<Rightarrow> string \<Rightarrow> json" where
  "get_prop (JObj fs) k = (case map_of fs k of Some v \<Rightarrow> v | None \<Rightarrow> JUndefined)"
| "get_prop _ k = JUndefined"

text \<open>
  Writing a property in an object literal after a spread, \<open>{...o, k: v}\<close>: an
  existing property keeps its position and takes the new value, a new one goes last.
\<close>

fun set_prop :: "string \<Rightarrow> json \<Rightarrow> (string \<times> json) list \<Rightarrow> (string \<times> json) list" where
  "set_prop k v [] = [(k, v)]"
| "set_prop k v ((k', v') # fs) =
     (if k' = k then (k, v) # fs else (k', v') # set_prop k v fs)"

text \<open>
  The own enumerable properties copied by \<open>...(x as object)\<close>.  Primitives other than
  strings contribute nothing; strings and arrays (indexed properties) never reach a
  spread in this program and are given no properties here.
\<close>

fun spread :: "json option \<Rightarrow> (string \<times> json) list" where
  "spread (Some (JObj fs)) = fs"
| "spread _ = []"

section \<open>Strings\<close>

text \<open>
  Strings are lists of characters; \<open>of_char c\<close> is \<open>charCodeAt\<close>.  Header values
  and base64 text are Latin-1, where the white space and line terminators that
  \<open>String.prototype.trim\<close> strips are the codes 9 to 13, 32 and 160.
\<close>

definition isWhiteSpace :: "char \<Rightarrow> bool" where
  "isWhiteSpace c \<longleftrightarrow>
     (let code = (of_char c :: nat)
      in (9 \<le> code \<and> code \<le> 13) \<or> code = 32 \<or> code = 160)"

definition trim :: "string \<Rightarrow> string" where
  "trim s = rev (dropWhile isWhiteSpace (rev (dropWhile isWhiteSpace s)))"

text \<open>The decimal digits of a natural number, as \<open>String(n)\<close> prints them.\<close>

fun digits :: "nat \<Rightarrow> string" where
  "digits n =
     (if n < 10 then [''0123456789'' ! n]
      else digits (n div 10) @ [''0123456789'' ! (n mod 10)])"

declare digits.simps [simp del]


section \<open>Blob Request Parser (blob-request.ts)\<close>

subsection \<open>The runtime's base64 codec\<close>

text \<open>
  \<open>buf.toString("base64")\<close> is the encoding of RFC 4648 with padding: three bytes
  give four characters of the alphabet \<open>A-Z a-z 0-9 + /\<close>, a last group of one or
  two bytes gives two or three characters followed by \<open>==\<close> or \<open>=\<close>.
\<close>

type_synonym byte = "8 word"

definition b64char :: "nat \<Rightarrow> char" where
  "b64char n =
     char_of (if n < 26 then n + 0x41
              else if n < 52 then n - 26 + 0x61
              else if n < 62 then n - 52 + 0x30
              else if n = 62 then 0x2b else (0x2f :: nat))"

fun toString_base64 :: "byte list \<Rightarrow> string" where
  "toString_base64 (a # b # c # rest) =
     [b64char (unat a div 4),
      b64char ((unat a mod 4) * 16 + unat b div 16),
      b64char ((unat b mod 16) * 4 + unat c div 64),
      b64char (unat c mod 64)] @ toString_base64 rest"
| "toString_base64 [a, b] =
     [b64char (unat a div 4),
      b64char ((unat a mod 4) * 16 + unat b div 16),
      b64char ((unat b mod 16) * 4),
      CHR ''='']"
| "toString_base64 [a] =
     [b64char (unat a div 4), b64char ((unat a mod 4) * 16), CHR ''='', CHR ''='']"
| "toString_base64 [] = []"

text \<open>
  \<open>Buffer.from(s, "base64")\<close> is forgiving: it reads up to the first \<open>=\<close>, skips
  every character that is not a base64 (or base64url) digit, and turns each run of
  four digits into three bytes; two or three digits left over give one or two bytes,
  the unused low bits being dropped, and a single digit left over gives none.
\<close>

definition unbase64 :: "char \<Rightarrow> nat option" where
  "unbase64 c =
     (let code = (of_char c :: nat)
      in if 0x41 \<le> code \<and> code \<le> 0x5a then Some (code - 0x41)
         else if 0x61 \<le> code \<and> code \<le> 0x7a then Some (code - 0x61 + 26)
         else if 0x30 \<le> code \<and> code \<le> 0x39 then Some (code - 0x30 + 52)
         else if code = 0x2b \<or> code = 0x2d then Some 62
         else if code = 0x2f \<or> code = 0x5f then Some 63
         else None)"

fun bytes_of_sextets :: "nat list \<Rightarrow> byte list" where
  "bytes_of_sextets (w # x # y # z # rest) =
     [of_nat (w * 4 + x div 16), of_nat ((x mod 16) * 16 + y div 4),
      of_nat ((y mod 4) * 64 + z)] @ bytes_of_sextets rest"
| "bytes_of_sextets [w, x, y] =
     [of_nat (w * 4 + x div 16), of_nat ((x mod 16) * 16 + y div 4)]"
| "bytes_of_sextets [w, x] = [of_nat (w * 4 + x div 16)]"
| "bytes_of_sextets _ = []"

definition Buffer_from_base64 :: "string \<Rightarrow> byte list" where
  "Buffer_from_base64 s =
     bytes_of_sextets (List.map_filter unbase64 (takeWhile (\<lambda>c. c \<noteq> CHR ''='') s))"

subsection \<open>decodeStrictBase64\<close>

datatype validation_error =
    InvalidRequestBody
  | MustBeBase64 string
  | MustNotDecodeToEmpty string
  | NotCanonicalBase64 string

text \<open>The \<open>message\<close> of the thrown \<open>Error\<close>; the issue list of the schema library is not spelled out.\<close>

fun error_message :: "validation_error \<Rightarrow> string" where
  "error_message InvalidRequestBody = ''Invalid request body''"
| "error_message (MustBeBase64 fieldName) = fieldName @ '' must be base64 encoded''"
| "error_message (MustNotDecodeToEmpty fieldName) = fieldName @ '' must not decode to empty data''"
| "error_message (NotCanonicalBase64 fieldName) = fieldName @ '' is not valid canonical base64''"

definition isBase64CharCode :: "nat \<Rightarrow> bool" where
  "isBase64CharCode code \<longleftrightarrow>
     (code \<ge> 0x41 \<and> code \<le> 0x5a) \<or>
     (code \<ge> 0x61 \<and> code \<le> 0x7a) \<or>
     (code \<ge> 0x30 \<and> code \<le> 0x39) \<or>
     code = 0x2b \<or>
     code = 0x2f"

text \<open>
  The \<open>for\<close> loop of \<open>decodeStrictBase64\<close>: \<open>len\<close> is \<open>value.length\<close>, \<open>i\<close> the
  index of the first character of \<open>cs\<close>, the characters not yet visited.  The result is
  \<open>False\<close> exactly when the loop throws.
\<close>

fun scanLoop :: "nat \<Rightarrow> nat \<Rightarrow> bool \<Rightarrow> string \<Rightarrow> bool" where
  "scanLoop len i encounteredPadding [] = True"
| "scanLoop len i encounteredPadding (c # cs) =
     (let code = (of_char c :: nat)
      in if code = 0x3d
         then (if int i < int len - 2 then False else scanLoop len (i + 1) True cs)
         else if encounteredPadding \<or> \<not> isBase64CharCode code then False
         else scanLoop len (i + 1) encounteredPadding cs)"

definition decodeStrictBase64 :: "string \<Rightarrow> string \<Rightarrow> validation_error + byte list" where
  "decodeStrictBase64 val fieldName =
     (if length val mod 4 \<noteq> 0 then Inl (MustBeBase64 fieldName)
      else if \<not> scanLoop (length val) 0 False val then Inl (MustBeBase64 fieldName)
      else let decoded = Buffer_from_base64 val
           in if length decoded = 0 then Inl (MustNotDecodeToEmpty fieldName)
              else if toString_base64 decoded \<noteq> val then Inl (NotCanonicalBase64 fieldName)
              else Inr decoded)"

subsection \<open>parseBlobRequest\<close>

record ParsedBlobRequest =
  namespaceIdB64 :: string
  dataB64 :: string
  payloadBytes :: nat
  metadata :: "(string \<times> json) list option"
  fingerprint :: string

text \<open>
  \<open>BLOBS_REQUEST_SCHEMA.safeParse\<close>: the body must be an object whose \<open>data\<close> is a
  string of at least one character, whose \<open>namespace_id\<close> and \<open>namespaceId\<close> are
  strings when present, and whose \<open>metadata\<close> is an object when present.  \<open>None\<close> is
  the unsuccessful parse.
\<close>

record BlobsRequestData =
  data :: string
  namespace_id :: "string option"
  namespaceId :: "string option"
  metadata_field :: "(string \<times> json) list option"

fun optionalString :: "json \<Rightarrow> string option option" where
  "optionalString JUndefined = Some None"
| "optionalString (JStr s) = Some (Some s)"
| "optionalString _ = None"

fun optionalRecord :: "json \<Rightarrow> (string \<times> json) list option option" where
  "optionalRecord JUndefined = Some None"
| "optionalRecord (JObj fs) = Some (Some fs)"
| "optionalRecord _ = None"

definition BLOBS_REQUEST_SCHEMA :: "json \<Rightarrow> BlobsRequestData option" where
  "BLOBS_REQUEST_SCHEMA body =
     (case body of
        JObj fs \<Rightarrow>
          (case (get_prop body ''data'', optionalString (get_prop body ''namespace_id''),
                 optionalString (get_prop body ''namespaceId''),
                 optionalRecord (get_prop body ''metadata'')) of
             (JStr d, Some ns1, Some ns2, Some md) \<Rightarrow>
               if length d \<ge> 1
               then Some \<lparr>data = d, namespace_id = ns1, namespaceId = ns2, metadata_field = md\<rparr>
               else None
           | _ \<Rightarrow> None)
      | _ \<Rightarrow> None)"

text \<open>
  The hash \<open>createHash("sha256") ... digest("hex")\<close> comes from the runtime; it is the
  parameter \<open>sha256hex\<close>, applied to the concatenation of the three updates.
\<close>

definition parseBlobRequest :: "(string \<Rightarrow> string) \<Rightarrow> json \<Rightarrow> string
    \<Rightarrow> validation_error + ParsedBlobRequest" where
  "parseBlobRequest sha256hex body defaultNamespaceIdB64 =
     (case BLOBS_REQUEST_SCHEMA body of
        None \<Rightarrow> Inl InvalidRequestBody
      | Some parsed \<Rightarrow>
          (let rawNamespaceId =
                 (case namespace_id parsed of Some n \<Rightarrow> Some n | None \<Rightarrow> namespaceId parsed);
               nsB64 = (case rawNamespaceId of Some n \<Rightarrow> n | None \<Rightarrow> defaultNamespaceIdB64)
           in case decodeStrictBase64 nsB64 ''namespace_id'' of
                Inl e \<Rightarrow> Inl e
              | Inr _ \<Rightarrow>
                  (case decodeStrictBase64 (data parsed) ''data'' of
                     Inl e \<Rightarrow> Inl e
                   | Inr payloadBuffer \<Rightarrow>
                       (let dB64 = toString_base64 payloadBuffer
                        in Inr \<lparr>namespaceIdB64 = nsB64, dataB64 = dB64,
                                payloadBytes = length payloadBuffer,
                                metadata = metadata_field parsed,
                                fingerprint = sha256hex (nsB64 @ [CHR 0x0A] @ dB64)\<rparr>))))"

section \<open>Idempotency Store (idempotency-store.ts)\<close>

datatype IdempotencyStatus = processing | completed | failed

record IdempotencyRecord =
  key :: string
  fingerprint :: string
  status :: IdempotencyStatus
  responseStatus :: "nat option"
  responseBody :: "json option"
  createdAtMs :: int
  updatedAtMs :: int

text \<open>
  The store is the \<open>records\<close> map together with the constructor argument \<open>ttlMs\<close>.
  Every reading of \<open>Date.now()\<close> is an explicit argument \<open>now\<close>.
\<close>

record IdempotencyStore =
  records :: "string \<rightharpoonup> IdempotencyRecord"
  ttlMs :: int

definition isExpired :: "IdempotencyStore \<Rightarrow> int \<Rightarrow> IdempotencyRecord \<Rightarrow> bool" where
  "isExpired s now r \<longleftrightarrow> now - createdAtMs r > ttlMs s"

definition pruneKey :: "int \<Rightarrow> string \<Rightarrow> IdempotencyStore \<Rightarrow> IdempotencyStore" where
  "pruneKey now k s =
     (case records s k of
        None \<Rightarrow> s
      | Some r \<Rightarrow> if isExpired s now r then s\<lparr>records := (records s)(k := None)\<rparr> else s)"


text \<open>\<open>get\<close> returns the record and the store after the lazy expiry.\<close>

definition get :: "int \<Rightarrow> string \<Rightarrow> IdempotencyStore \<Rightarrow> IdempotencyRecord option \<times> IdempotencyStore" where
  "get now k s = (let s' = pruneKey now k s in (records s' k, s'))"

text \<open>
  \<open>begin\<close> reads the clock once for the new record (\<open>now\<close>) and once more inside
  \<open>get\<close> (\<open>now'\<close>).
\<close>

definition store_begin :: "int \<Rightarrow> int \<Rightarrow> string \<Rightarrow> string \<Rightarrow> IdempotencyStore
    \<Rightarrow> IdempotencyRecord \<times> IdempotencyStore" where
  "store_begin now now' k f s =
     (case get now' k s of
        (Some existing, s') \<Rightarrow> (existing, s')
      | (None, s') \<Rightarrow>
          (let created = \<lparr>key = k, fingerprint = f, status = processing,
                          responseStatus = None, responseBody = None,
                          createdAtMs = now, updatedAtMs = now\<rparr>
           in (created, s'\<lparr>records := (records s')(k \<mapsto> created)\<rparr>)))"

definition complete :: "int \<Rightarrow> string \<Rightarrow> nat \<Rightarrow> json \<Rightarrow> IdempotencyStore \<Rightarrow> IdempotencyStore" where
  "complete now k rs rb s =
     (case records s k of
        None \<Rightarrow> s
      | Some existing \<Rightarrow>
          s\<lparr>records := (records s)(k \<mapsto> existing\<lparr>status := completed,
                 responseStatus := Some rs, responseBody := Some rb, updatedAtMs := now\<rparr>)\<rparr>)"

definition fail :: "int \<Rightarrow> string \<Rightarrow> nat \<Rightarrow> json \<Rightarrow> IdempotencyStore \<Rightarrow> IdempotencyStore" where
  "fail now k rs rb s =
     (case records s k of
        None \<Rightarrow> s
      | Some existing \<Rightarrow>
          s\<lparr>records := (records s)(k \<mapsto> existing\<lparr>status := failed,
                 responseStatus := Some rs, responseBody := Some rb, updatedAtMs := now\<rparr>)\<rparr>)"

text \<open>A key has a live record when the map holds one that has not expired.\<close>

definition live :: "IdempotencyStore \<Rightarrow> int \<Rightarrow> string \<Rightarrow> IdempotencyRecord \<Rightarrow> bool" where
  "live s now k r \<longleftrightarrow> records s k = Some r \<and> \<not> isExpired s now r"

section \<open>Pricing Engine (pricing.ts)\<close>

datatype TiaUsdSource = coingecko | fallback

record PricingConfig =
  markupBps :: real
  fixedUsd :: real
  minUsd :: real
  tiaUsdFallback :: real
  tiaUsdSource :: TiaUsdSource

record CachedTiaUsd =
  cachedValue :: real
  fetchedAtMs :: int

record MainnetReference =
  estimatedGas :: real
  gasPriceUtia :: real
  estimatedTia :: real
  tiaUsd :: real
  estimatedUsd :: real

record PricingQuote =
  payloadBytes :: nat
  mainnetReference :: MainnetReference
  chargedUsd :: real
  chargedPriceString :: string

record PricingEngine =
  config :: PricingConfig
  cachedTiaUsd :: "CachedTiaUsd option"

subsection \<open>The world outside the process\<close>

text \<open>
  What is thrown: a \<open>CelestiaSubmitError\<close> with its message and optional code, any
  other \<open>Error\<close> with its message, or a value that is not an \<open>Error\<close>.
\<close>

datatype thrown =
    CelestiaSubmitError string "int option"
  | OtherError string
  | NotAnError

datatype CeleniumNetwork = mainnet | mocha

text \<open>
  The answer of the CoinGecko request as \<open>loadTiaUsd\<close> tells the cases apart: the
  fetch rejects, the status is not ok, the body is not JSON, \<open>celestia.usd\<close> is not a
  number, it is a number that is not finite, or it is a finite number.
\<close>

datatype tia_response =
    FetchRejected
  | ResponseNotOk nat
  | BodyNotJson
  | UsdNotANumber
  | UsdNotFinite
  | Usd real

text \<open>
  The answers of the Celenium client (celenium-client.ts), which returns a finite
  number or throws.  \<open>Promise.all\<close> rejects with whichever rejection comes first;
  \<open>gasPriceSettlesFirst\<close> says which one that is when both requests fail.
\<close>

record Upstream =
  estimateGasForPfb :: "CeleniumNetwork \<Rightarrow> nat \<Rightarrow> thrown + real"
  getGasPriceUtia :: "CeleniumNetwork \<Rightarrow> thrown + real"
  coingeckoSimplePrice :: tia_response
  gasPriceSettlesFirst :: bool

record SubmitBlobInput =
  namespaceIdB64 :: string
  dataB64 :: string
  gasPrice :: "real option"
  keyName :: "string option"
  signerAddress :: "string option"

record SubmitBlobResult =
  mode :: string
  txHash :: string
  height :: "real option"
  code :: "real option"

text \<open>The requests that leave the process, in the order they are issued.\<close>

datatype outbound =
    CeleniumEstimateGas CeleniumNetwork nat
  | CeleniumGasPrice CeleniumNetwork
  | CoinGeckoSimplePrice
  | SubmitBlob SubmitBlobInput

text \<open>
  Runtime functions taken as parameters: the SHA-256 digest in hexadecimal, and
  \<open>Number::toString\<close>, which \<open>toFixed\<close> falls back to from \<open>10^21\<close> on.
\<close>

record Runtime =
  sha256hex :: "string \<Rightarrow> string"
  numberToString :: "real \<Rightarrow> string"

subsection \<open>Rounding and rendering\<close>

definition roundToUsdPrice :: "real \<Rightarrow> real" where
  "roundToUsdPrice v = real_of_int \<lceil>v * 10000\<rceil> / 10000"

text \<open>
  \<open>Number.prototype.toFixed(f)\<close> after ECMA-262: the sign is split off, \<open>n\<close> is the
  integer nearest to \<open>x * 10^f\<close> (the larger one on a tie), and its digits, padded with
  zeros to at least \<open>f + 1\<close> of them, get the point before the last \<open>f\<close>.
\<close>

definition toFixed :: "Runtime \<Rightarrow> nat \<Rightarrow> real \<Rightarrow> string" where
  "toFixed rt f x0 =
     (let s = (if x0 < 0 then ''-'' else []);
          x = (if x0 < 0 then - x0 else x0)
      in if x \<ge> 10 ^ 21 then s @ numberToString rt x
         else
           (let n = nat \<lfloor>x * 10 ^ f + 1 / 2\<rfloor>;
                m = digits n;
                m = (if f \<noteq> 0
                     then (let k = length m;
                               m = (if k \<le> f then replicate (f + 1 - k) (CHR ''0'') @ m else m);
                               k = length m
                           in take (k - f) m @ ''.'' @ drop (k - f) m)
                     else m)
            in s @ m))"

subsection \<open>loadTiaUsd and quote\<close>

definition loadTiaUsd :: "PricingEngine \<Rightarrow> Upstream \<Rightarrow> int
    \<Rightarrow> real \<times> PricingEngine \<times> outbound list" where
  "loadTiaUsd pe up now =
     (if tiaUsdSource (config pe) = fallback then (tiaUsdFallback (config pe), pe, [])
      else
        (case (case cachedTiaUsd pe of
                 Some c \<Rightarrow> if now - fetchedAtMs c < 60000 then Some (cachedValue c) else None
               | None \<Rightarrow> None) of
           Some v \<Rightarrow> (v, pe, [])
         | None \<Rightarrow>
             (case coingeckoSimplePrice up of
                Usd usd \<Rightarrow>
                  if usd \<le> 0 then (tiaUsdFallback (config pe), pe, [CoinGeckoSimplePrice])
                  else (usd, pe\<lparr>cachedTiaUsd := Some \<lparr>cachedValue = usd, fetchedAtMs = now\<rparr>\<rparr>,
                        [CoinGeckoSimplePrice])
              | _ \<Rightarrow> (tiaUsdFallback (config pe), pe, [CoinGeckoSimplePrice]))))"

text \<open>
  Where the rate returned by \<open>loadTiaUsd\<close> comes from, branch by branch: the configured
  rate because the source is set to \<open>fallback\<close>, the in-process cache, the CoinGecko
  answer, or the configured rate because the request failed or its value was rejected.
\<close>

datatype rate_origin = ConfiguredSource | CachedRate | FetchedRate | FallbackRate

definition tiaUsdOrigin :: "PricingEngine \<Rightarrow> Upstream \<Rightarrow> int \<Rightarrow> rate_origin" where
  "tiaUsdOrigin pe up now =
     (if tiaUsdSource (config pe) = fallback then ConfiguredSource
      else if (case cachedTiaUsd pe of
                 Some c \<Rightarrow> now - fetchedAtMs c < 60000
               | None \<Rightarrow> False) then CachedRate
      else (case coingeckoSimplePrice up of
              Usd usd \<Rightarrow> if usd \<le> 0 then FallbackRate else FetchedRate
            | _ \<Rightarrow> FallbackRate))"

definition quote :: "Runtime \<Rightarrow> PricingEngine \<Rightarrow> Upstream \<Rightarrow> int \<Rightarrow> nat
    \<Rightarrow> (thrown + PricingQuote) \<times> PricingEngine \<times> outbound list" where
  "quote rt pe up now bytes =
     (case loadTiaUsd pe up now of
        (tia, pe', tiaCalls) \<Rightarrow>
          (let calls = [CeleniumEstimateGas mainnet bytes, CeleniumGasPrice mainnet] @ tiaCalls
           in case (estimateGasForPfb up mainnet bytes, getGasPriceUtia up mainnet) of
                (Inl e1, Inl e2) \<Rightarrow> (Inl (if gasPriceSettlesFirst up then e2 else e1), pe', calls)
              | (Inl e1, Inr _) \<Rightarrow> (Inl e1, pe', calls)
              | (Inr _, Inl e2) \<Rightarrow> (Inl e2, pe', calls)
              | (Inr gas, Inr price) \<Rightarrow>
                  (let estTia = (gas * price) / 1000000;
                       estUsd = estTia * tia;
                       withMarkup =
                         estUsd * (1 + markupBps (config pe) / 10000) + fixedUsd (config pe);
                       charged = max (minUsd (config pe)) (roundToUsdPrice withMarkup)
                   in (Inr \<lparr>payloadBytes = bytes,
                             mainnetReference =
                               \<lparr>estimatedGas = gas, gasPriceUtia = price, estimatedTia = estTia,
                                tiaUsd = tia, estimatedUsd = estUsd\<rparr>,
                             chargedUsd = charged,
                             chargedPriceString = ''$'' @ toFixed rt 4 charged\<rparr>,
                       pe', calls))))"

section \<open>Coordinator (index.ts)\<close>

record AppConfig =
  maxPayloadBytes :: nat
  idempotencyTtlMs :: int
  celestiaNamespaceIdB64 :: string
  celestiaTxGasPrice :: "real option"
  celestiaTxKeyName :: "string option"
  celestiaSignerAddress :: "string option"

record QuoteCacheEntry =
  fingerprint :: string
  entry_quote :: PricingQuote
  expiresAt :: int

text \<open>
  The module-level state: the idempotency store, the quote cache, the pricing engine,
  and the log of the requests sent out so far.
\<close>

record Server =
  idempotencyStore :: IdempotencyStore
  quoteByIdempotencyKey :: "string \<rightharpoonup> QuoteCacheEntry"
  pricingEngine :: PricingEngine
  sent :: "outbound list"

text \<open>
  What one run of a handler meets: the upstream answers, the submission backend
  (\<open>celestiaSubmitter.submitBlob\<close>, which returns a result or throws), and the readings
  of \<open>Date.now()\<close> when the request arrives, when the quote has been awaited and when
  the submission has been awaited.
\<close>

record Env =
  upstream :: Upstream
  submitBlob :: "SubmitBlobInput \<Rightarrow> thrown + SubmitBlobResult"
  t_request :: int
  t_quoted :: int
  t_done :: int

record HttpRequest =
  idempotencyKeyHeader :: "string option"
  body :: json

record HttpResponse =
  httpStatus :: nat
  httpBody :: json

subsection \<open>getOrCreateQuote\<close>

definition getOrCreateQuote :: "Runtime \<Rightarrow> AppConfig \<Rightarrow> Env \<Rightarrow> ParsedBlobRequest
    \<Rightarrow> string option \<Rightarrow> Server \<Rightarrow> (thrown + PricingQuote) \<times> Server" where
  "getOrCreateQuote rt cfg env parsed idempotencyKey srv =
     (let normalizedKey = map_option trim idempotencyKey;
          truthyKey = (case normalizedKey of Some k \<Rightarrow> if k \<noteq> [] then Some k else None
                       | None \<Rightarrow> None);
          hit = (case truthyKey of
                   None \<Rightarrow> None
                 | Some k \<Rightarrow>
                     (case quoteByIdempotencyKey srv k of
                        None \<Rightarrow> None
                      | Some existing \<Rightarrow>
                          if QuoteCacheEntry.fingerprint existing = ParsedBlobRequest.fingerprint parsed
                             \<and> expiresAt existing > t_request env
                          then Some (entry_quote existing) else None))
      in case hit of
           Some q \<Rightarrow> (Inr q, srv)
         | None \<Rightarrow>
             (case quote rt (pricingEngine srv) (upstream env) (t_request env)
                     (ParsedBlobRequest.payloadBytes parsed) of
                (res, pe', calls) \<Rightarrow>
                  (let srv' = srv\<lparr>pricingEngine := pe', sent := sent srv @ calls\<rparr>
                   in case res of
                        Inl e \<Rightarrow> (Inl e, srv')
                      | Inr q \<Rightarrow>
                          (Inr q,
                           case truthyKey of
                             None \<Rightarrow> srv'
                           | Some k \<Rightarrow>
                               srv'\<lparr>quoteByIdempotencyKey := (quoteByIdempotencyKey srv')
                                  (k \<mapsto> \<lparr>fingerprint = ParsedBlobRequest.fingerprint parsed,
                                          entry_quote = q,
                                          expiresAt = t_quoted env + idempotencyTtlMs cfg\<rparr>)\<rparr>))))"

subsection \<open>onProtectedRequest\<close>




subsection \<open>POST /v1/blobs\<close>

fun statusString :: "IdempotencyStatus \<Rightarrow> string" where
  "statusString processing = ''processing''"
| "statusString completed = ''completed''"
| "statusString failed = ''failed''"

definition idempotencyTag :: "string \<Rightarrow> bool \<Rightarrow> string \<Rightarrow> json" where
  "idempotencyTag k replayed st =
     JObj [(''key'', JStr k), (''replayed'', JBool replayed), (''status'', JStr st)]"

fun optNum :: "real option \<Rightarrow> json" where
  "optNum None = JUndefined"
| "optNum (Some x) = JNum x"

definition quoteJson :: "PricingQuote \<Rightarrow> json" where
  "quoteJson q =
     JObj [(''payloadBytes'', JNum (real (PricingQuote.payloadBytes q))),
           (''mainnetReference'',
              JObj [(''estimatedGas'', JNum (estimatedGas (mainnetReference q))),
                    (''gasPriceUtia'', JNum (gasPriceUtia (mainnetReference q))),
                    (''estimatedTia'', JNum (estimatedTia (mainnetReference q))),
                    (''tiaUsd'', JNum (tiaUsd (mainnetReference q))),
                    (''estimatedUsd'', JNum (estimatedUsd (mainnetReference q)))]),
           (''chargedUsd'', JNum (chargedUsd q)),
           (''chargedPriceString'', JStr (chargedPriceString q))]"

text \<open>Lines 446 to 476: the answer when the key already has a live record.\<close>

definition respondExisting :: "string \<Rightarrow> ParsedBlobRequest \<Rightarrow> IdempotencyRecord \<Rightarrow> HttpResponse" where
  "respondExisting idempotencyKey parsed existing =
     (if IdempotencyRecord.fingerprint existing \<noteq> ParsedBlobRequest.fingerprint parsed
      then \<lparr>httpStatus = 409,
            httpBody = JObj [(''error'', JStr ''Idempotency-Key already used with different payload''),
                             (''idempotency'',
                                idempotencyTag idempotencyKey True (statusString (status existing)))]\<rparr>
      else if status existing = processing
      then \<lparr>httpStatus = 409,
            httpBody = JObj [(''error'', JStr ''Request with this Idempotency-Key is still processing''),
                             (''idempotency'',
                                idempotencyTag idempotencyKey True (statusString (status existing)))]\<rparr>
      else \<lparr>httpStatus = (case responseStatus existing of Some st \<Rightarrow> st | None \<Rightarrow> 200),
            httpBody = JObj (set_prop ''idempotency''
                               (idempotencyTag idempotencyKey True (statusString (status existing)))
                               (spread (responseBody existing)))\<rparr>)"

text \<open>Lines 517 to 543: the \<open>catch\<close> branch.\<close>

fun failureStatus :: "thrown \<Rightarrow> nat" where
  "failureStatus (CelestiaSubmitError msg c) = (if c = Some 21 then 413 else 502)"
| "failureStatus _ = 500"

fun thrownDetails :: "thrown \<Rightarrow> string" where
  "thrownDetails (CelestiaSubmitError msg c) = msg"
| "thrownDetails (OtherError msg) = msg"
| "thrownDetails NotAnError = ''Unknown error''"

fun thrownHint :: "thrown \<Rightarrow> json" where
  "thrownHint (CelestiaSubmitError msg c) =
     (if c = Some 21
      then JStr ''Celestia rejected the blob transaction as too large. Reduce payload size.''
      else JUndefined)"
| "thrownHint _ = JUndefined"

definition failureBody :: "string \<Rightarrow> thrown \<Rightarrow> json" where
  "failureBody idempotencyKey err =
     JObj [(''error'', JStr ''Failed to submit blob to Celestia''),
           (''details'', JStr (thrownDetails err)),
           (''charged'', JBool False),
           (''hint'', thrownHint err),
           (''refundPolicy'', JStr ''No settlement is executed because this request failed (status >= 400), so no refund transfer is needed.''),
           (''idempotency'', idempotencyTag idempotencyKey False ''failed'')]"

definition catchSubmit :: "Env \<Rightarrow> string \<Rightarrow> thrown \<Rightarrow> Server \<Rightarrow> HttpResponse \<times> Server" where
  "catchSubmit env idempotencyKey err srv =
     (let rs = failureStatus err;
          rb = failureBody idempotencyKey err
      in (\<lparr>httpStatus = rs, httpBody = rb\<rparr>,
          srv\<lparr>idempotencyStore := fail (t_done env) idempotencyKey rs rb (idempotencyStore srv)\<rparr>))"

definition successBody :: "string \<Rightarrow> ParsedBlobRequest \<Rightarrow> SubmitBlobResult \<Rightarrow> PricingQuote \<Rightarrow> json" where
  "successBody idempotencyKey parsed submitResult q =
     JObj [(''status'', JStr ''submitted''),
           (''mode'', JStr (mode submitResult)),
           (''namespaceId'', JStr (ParsedBlobRequest.namespaceIdB64 parsed)),
           (''payloadBytes'', JNum (real (ParsedBlobRequest.payloadBytes parsed))),
           (''txHash'', JStr (txHash submitResult)),
           (''height'', optNum (height submitResult)),
           (''code'', optNum (code submitResult)),
           (''quote'', quoteJson q),
           (''refundPolicy'', JStr ''If Celestia submit fails, this endpoint returns >=400 so x402 settlement does not execute (no charge).''),
           (''idempotency'', idempotencyTag idempotencyKey False ''completed'')]"

text \<open>
  Lines 482 to 495, the awaited part of the \<open>try\<close> block: the quote and the Mocha gas
  price are requested together; a configured gas price that is truthy replaces the
  request, and a failed request for it gives \<open>undefined\<close>.  The blob is submitted only
  after both have settled and the quote has not thrown.  The result is what was thrown,
  or the quote and the submit result.
\<close>

definition tryBlock :: "Runtime \<Rightarrow> AppConfig \<Rightarrow> Env \<Rightarrow> string \<Rightarrow> ParsedBlobRequest
    \<Rightarrow> Server \<Rightarrow> (thrown + PricingQuote \<times> SubmitBlobResult) \<times> Server" where
  "tryBlock rt cfg env idempotencyKey parsed srv =
     (case getOrCreateQuote rt cfg env parsed (Some idempotencyKey) srv of
        (quoteResult, srv2) \<Rightarrow>
          (let configured = (case celestiaTxGasPrice cfg of
                               Some g \<Rightarrow> if g \<noteq> 0 then Some g else None
                             | None \<Rightarrow> None);
               mochaGasPriceUtia =
                 (case configured of
                    Some g \<Rightarrow> Some g
                  | None \<Rightarrow> (case getGasPriceUtia (upstream env) mocha of
                               Inr p \<Rightarrow> Some p | Inl _ \<Rightarrow> None));
               srv3 = (case configured of
                         Some g \<Rightarrow> srv2
                       | None \<Rightarrow> srv2\<lparr>sent := sent srv2 @ [CeleniumGasPrice mocha]\<rparr>)
           in case quoteResult of
                Inl err \<Rightarrow> (Inl err, srv3)
              | Inr q \<Rightarrow>
                  (let input = \<lparr>namespaceIdB64 = ParsedBlobRequest.namespaceIdB64 parsed,
                                dataB64 = ParsedBlobRequest.dataB64 parsed,
                                gasPrice = mochaGasPriceUtia,
                                keyName = celestiaTxKeyName cfg,
                                signerAddress = celestiaSignerAddress cfg\<rparr>;
                       srv4 = srv3\<lparr>sent := sent srv3 @ [SubmitBlob input]\<rparr>
                   in case submitBlob env input of
                        Inl err \<Rightarrow> (Inl err, srv4)
                      | Inr submitResult \<Rightarrow> (Inr (q, submitResult), srv4))))"

text \<open>Lines 479 to 543: \<open>begin\<close>, the \<open>try\<close> block, and the recording of its outcome.\<close>

definition submitNew :: "Runtime \<Rightarrow> AppConfig \<Rightarrow> Env \<Rightarrow> string \<Rightarrow> ParsedBlobRequest
    \<Rightarrow> Server \<Rightarrow> HttpResponse \<times> Server" where
  "submitNew rt cfg env idempotencyKey parsed srv =
     (let srv1 = srv\<lparr>idempotencyStore :=
                   snd (store_begin (t_request env) (t_request env) idempotencyKey
                          (ParsedBlobRequest.fingerprint parsed) (idempotencyStore srv))\<rparr>
      in case tryBlock rt cfg env idempotencyKey parsed srv1 of
           (Inl err, srv') \<Rightarrow> catchSubmit env idempotencyKey err srv'
         | (Inr (q, submitResult), srv') \<Rightarrow>
             (let rb = successBody idempotencyKey parsed submitResult q
              in (\<lparr>httpStatus = 200, httpBody = rb\<rparr>,
                  srv'\<lparr>idempotencyStore :=
                     complete (t_done env) idempotencyKey 200 rb (idempotencyStore srv')\<rparr>)))"

definition postBlobs :: "Runtime \<Rightarrow> AppConfig \<Rightarrow> Env \<Rightarrow> HttpRequest \<Rightarrow> Server
    \<Rightarrow> HttpResponse \<times> Server" where
  "postBlobs rt cfg env req srv =
     (case map_option trim (idempotencyKeyHeader req) of
        None \<Rightarrow>
          (\<lparr>httpStatus = 400,
            httpBody = JObj [(''error'', JStr ''Idempotency-Key header is required'')]\<rparr>, srv)
      | Some idempotencyKey \<Rightarrow>
          if idempotencyKey = []
          then (\<lparr>httpStatus = 400,
                 httpBody = JObj [(''error'', JStr ''Idempotency-Key header is required'')]\<rparr>, srv)
          else
            (case parseBlobRequest (sha256hex rt) (body req) (celestiaNamespaceIdB64 cfg) of
               Inl e \<Rightarrow>
                 (\<lparr>httpStatus = 400,
                   httpBody = JObj [(''error'', JStr ''Invalid blob payload''),
                                    (''details'', JStr (error_message e))]\<rparr>, srv)
             | Inr parsed \<Rightarrow>
                 if ParsedBlobRequest.payloadBytes parsed > maxPayloadBytes cfg
                 then (\<lparr>httpStatus = 413,
                        httpBody = JObj [(''error'', JStr ''Payload too large''),
                                         (''maxPayloadBytes'', JNum (real (maxPayloadBytes cfg))),
                                         (''payloadBytes'',
                                            JNum (real (ParsedBlobRequest.payloadBytes parsed)))]\<rparr>,
                       srv)
                 else
                   (case get (t_request env) idempotencyKey (idempotencyStore srv) of
                      (Some existing, store') \<Rightarrow>
                        (respondExisting idempotencyKey parsed existing,
                         srv\<lparr>idempotencyStore := store'\<rparr>)
                    | (None, store') \<Rightarrow>
                        submitNew rt cfg env idempotencyKey parsed
                          (srv\<lparr>idempotencyStore := store'\<rparr>))))"

subsection \<open>The periodic sweep\<close>


subsection \<open>Runs of the server\<close>





section \<open>A worked example\<close>

text \<open>
  The scenario of the specification: the payload \<open>hello world\<close> (11 bytes) in base64,
  the default namespace, and the key \<open>demo-001\<close>, sent with white space around it.
\<close>

definition demo_runtime :: Runtime where
  "demo_runtime = \<lparr>sha256hex = (\<lambda>s. ''sha256:'' @ s), numberToString = (\<lambda>x. ''1e+21'')\<rparr>"

definition demo_namespace :: string where
  "demo_namespace = ''AAAAAAAAAAAAAAAAAAAAAAAAAAAAwn/EaU0x0Q==''"

definition demo_config :: AppConfig where
  "demo_config = \<lparr>maxPayloadBytes = 8192000, idempotencyTtlMs = 86400000,
     celestiaNamespaceIdB64 = demo_namespace, celestiaTxGasPrice = None,
     celestiaTxKeyName = None, celestiaSignerAddress = None\<rparr>"

definition demo_request :: HttpRequest where
  "demo_request = \<lparr>idempotencyKeyHeader = Some '' demo-001 '',
     body = JObj [(''data'', JStr ''aGVsbG8gd29ybGQ='')]\<rparr>"

definition demo_parsed :: ParsedBlobRequest where
  "demo_parsed = \<lparr>ParsedBlobRequest.namespaceIdB64 = demo_namespace,
     ParsedBlobRequest.dataB64 = ''aGVsbG8gd29ybGQ='',
     ParsedBlobRequest.payloadBytes = 11, metadata = None,
     ParsedBlobRequest.fingerprint = ''sha256:'' @ demo_namespace @ [CHR 0x0A] @ ''aGVsbG8gd29ybGQ=''\<rparr>"

definition demo_pricing :: PricingEngine where
  "demo_pricing = \<lparr>config = \<lparr>markupBps = 2500, fixedUsd = 0, minUsd = 0.01,
     tiaUsdFallback = 0.5, tiaUsdSource = coingecko\<rparr>, cachedTiaUsd = None\<rparr>"

definition demo_upstream :: Upstream where
  "demo_upstream = \<lparr>estimateGasForPfb = (\<lambda>n b. Inr 80000), getGasPriceUtia = (\<lambda>n. Inr 0.004),
     coingeckoSimplePrice = Usd 4, gasPriceSettlesFirst = False\<rparr>"

definition demo_result :: SubmitBlobResult where
  "demo_result = \<lparr>mode = ''mock'', txHash = ''4BCB2E74'', height = Some 100, code = Some 0\<rparr>"

definition demo_env :: Env where
  "demo_env = \<lparr>upstream = demo_upstream, submitBlob = (\<lambda>i. Inr demo_result),
     t_request = 1000, t_quoted = 1200, t_done = 1500\<rparr>"

definition demo_server :: Server where
  "demo_server = \<lparr>idempotencyStore = \<lparr>records = Map.empty, ttlMs = 86400000\<rparr>,
     quoteByIdempotencyKey = Map.empty, pricingEngine = demo_pricing, sent = []\<rparr>"

definition demo_quote :: PricingQuote where
  "demo_quote = \<lparr>PricingQuote.payloadBytes = 11,
     mainnetReference = \<lparr>estimatedGas = 80000, gasPriceUtia = 0.004, estimatedTia = 0.00032,
       tiaUsd = 4, estimatedUsd = 0.00128\<rparr>,
     chargedUsd = 0.01, chargedPriceString = ''$0.0100''\<rparr>"

text \<open>The same instant of a later request, with every upstream price ten times higher.\<close>

definition demo_env_later :: Env where
  "demo_env_later = demo_env\<lparr>upstream := \<lparr>estimateGasForPfb = (\<lambda>n b. Inr 800000),
       getGasPriceUtia = (\<lambda>n. Inr 0.04), coingeckoSimplePrice = Usd 40,
       gasPriceSettlesFirst = False\<rparr>,
     t_request := 5000, t_quoted := 5200, t_done := 5500\<rparr>"

definition demo_server_cached :: Server where
  "demo_server_cached = demo_server\<lparr>quoteByIdempotencyKey :=
     [''demo-001'' \<mapsto> \<lparr>QuoteCacheEntry.fingerprint = ParsedBlobRequest.fingerprint demo_parsed,
        entry_quote = demo_quote, expiresAt = 86401200\<rparr>]\<rparr>"




text \<open>The price source is down; and the price source answers with the configured rate.\<close>

definition demo_upstream_no_rate :: Upstream where
  "demo_upstream_no_rate = demo_upstream\<lparr>coingeckoSimplePrice := FetchRejected\<rparr>"

definition demo_upstream_same_rate :: Upstream where
  "demo_upstream_same_rate = demo_upstream\<lparr>coingeckoSimplePrice := Usd 0.5\<rparr>"

definition demo_upstream_no_gas :: Upstream where
  "demo_upstream_no_gas = demo_upstream\<lparr>getGasPriceUtia :=
     (\<lambda>n. Inl (OtherError ''Celenium mainnet returned invalid median gas price''))\<rparr>"

text \<open>A record as a first call leaves it, in either terminal state, and one still in flight.\<close>

definition demo_record :: "IdempotencyStatus \<Rightarrow> IdempotencyRecord" where
  "demo_record st = \<lparr>key = ''demo-001'', IdempotencyRecord.fingerprint = ParsedBlobRequest.fingerprint demo_parsed,
     status = st,
     responseStatus = (case st of processing \<Rightarrow> None | completed \<Rightarrow> Some 200 | failed \<Rightarrow> Some 502),
     responseBody = (case st of processing \<Rightarrow> None
        | completed \<Rightarrow> Some (JObj [(''status'', JStr ''submitted''),
                                   (''idempotency'', idempotencyTag ''demo-001'' False ''completed'')])
        | failed \<Rightarrow> Some (failureBody ''demo-001'' (CelestiaSubmitError ''rpc down'' None))),
     createdAtMs = 1000, updatedAtMs = (case st of processing \<Rightarrow> 1000 | _ \<Rightarrow> 1500)\<rparr>"

definition demo_server_with :: "IdempotencyRecord \<Rightarrow> Server" where
  "demo_server_with r =
     demo_server\<lparr>idempotencyStore := \<lparr>records = [''demo-001'' \<mapsto> r], ttlMs = 86400000\<rparr>\<rparr>"

section \<open>Properties of the Idempotency Store\<close>

lemma get_live: "live s now k r \<Longrightarrow> get now k s = (Some r, s)"
  by (simp add: live_def get_def pruneKey_def)


lemma get_expired:
  "records s k = Some r \<Longrightarrow> isExpired s now r \<Longrightarrow>
   get now k s = (None, s\<lparr>records := (records s)(k := None)\<rparr>)"
  by (simp add: get_def pruneKey_def)

text \<open>
  C10.  For a key with a live record, \<open>begin\<close> with any fingerprint, equal to the stored
  one or not, hands back that record and leaves the store exactly as it was: nothing is
  overwritten, the stored fingerprint stays, and no conflict is signalled (the result is
  always a record).  Telling a conflicting fingerprint apart is left to the caller's
  own \<open>get\<close>.
\<close>

theorem begin_live_unchanged:
  "live s now' k r \<Longrightarrow> store_begin now now' k f s = (r, s)"
  by (simp add: store_begin_def get_live)

theorem begin_live_unchanged_witness:
  "live \<lparr>records = [''k'' \<mapsto> \<lparr>key = ''k'', fingerprint = ''f1'', status = completed,
            responseStatus = Some 200, responseBody = Some (JObj []),
            createdAtMs = 0, updatedAtMs = 5\<rparr>], ttlMs = 1000\<rparr> 10 ''k''
        \<lparr>key = ''k'', fingerprint = ''f1'', status = completed,
            responseStatus = Some 200, responseBody = Some (JObj []),
            createdAtMs = 0, updatedAtMs = 5\<rparr>
   \<and> store_begin 10 10 ''k'' ''f2''
        \<lparr>records = [''k'' \<mapsto> \<lparr>key = ''k'', fingerprint = ''f1'', status = completed,
            responseStatus = Some 200, responseBody = Some (JObj []),
            createdAtMs = 0, updatedAtMs = 5\<rparr>], ttlMs = 1000\<rparr>
      = (\<lparr>key = ''k'', fingerprint = ''f1'', status = completed,
            responseStatus = Some 200, responseBody = Some (JObj []),
            createdAtMs = 0, updatedAtMs = 5\<rparr>,
         \<lparr>records = [''k'' \<mapsto> \<lparr>key = ''k'', fingerprint = ''f1'', status = completed,
            responseStatus = Some 200, responseBody = Some (JObj []),
            createdAtMs = 0, updatedAtMs = 5\<rparr>], ttlMs = 1000\<rparr>)"
proof -
  have h: "live \<lparr>records = [''k'' \<mapsto> \<lparr>key = ''k'', fingerprint = ''f1'', status = completed,
            responseStatus = Some 200, responseBody = Some (JObj []),
            createdAtMs = 0, updatedAtMs = 5\<rparr>], ttlMs = 1000\<rparr> 10 ''k''
        \<lparr>key = ''k'', fingerprint = ''f1'', status = completed,
            responseStatus = Some 200, responseBody = Some (JObj []),
            createdAtMs = 0, updatedAtMs = 5\<rparr>"
    by (simp add: live_def isExpired_def)
  from h begin_live_unchanged [OF h, of 10 "''f2''"] show ?thesis by simp
qed

section \<open>Evaluating the worked example\<close>

lemma digits_small: "n < 10 \<Longrightarrow> digits n = [''0123456789'' ! n]"
  by (subst digits.simps) simp

lemma digits_large:
  "\<not> n < 10 \<Longrightarrow> digits n = digits (n div 10) @ [''0123456789'' ! (n mod 10)]"
  by (subst digits.simps) simp

lemmas base64_eval = decodeStrictBase64_def Buffer_from_base64_def List.map_filter_def
  unbase64_def b64char_def char_of_def bit_0 bit_Suc isBase64CharCode_def

lemma demo_namespace_decodes:
  "decodeStrictBase64 demo_namespace ''namespace_id'' =
     Inr [0,0,0,0,0,0,0,0,0,0,0,0,0,0,0,0,0,0,0,0,0,194,127,196,105,77,49,209]"
  by (simp add: demo_namespace_def base64_eval)

lemma demo_data_decodes:
  "decodeStrictBase64 ''aGVsbG8gd29ybGQ='' ''data'' =
     Inr [104,101,108,108,111,32,119,111,114,108,100]"
  by (simp add: base64_eval)

lemma demo_data_encodes:
  "toString_base64 [104,101,108,108,111,32,119,111,114,108,100] = ''aGVsbG8gd29ybGQ=''"
  by (simp add: b64char_def char_of_def bit_0 bit_Suc)

lemma demo_parse:
  "parseBlobRequest (sha256hex demo_runtime) (body demo_request)
     (celestiaNamespaceIdB64 demo_config) = Inr demo_parsed"
  by (simp add: parseBlobRequest_def BLOBS_REQUEST_SCHEMA_def demo_request_def demo_config_def
      demo_runtime_def demo_parsed_def demo_namespace_decodes demo_data_decodes
      Let_def b64char_def char_of_def bit_0 bit_Suc)

lemma demo_key: "map_option trim (idempotencyKeyHeader demo_request) = Some ''demo-001''"
  by (simp add: demo_request_def trim_def isWhiteSpace_def)

lemma demo_live:
  "live (idempotencyStore (demo_server_with (demo_record st))) (t_request demo_env)
     ''demo-001'' (demo_record st)"
  by (simp add: live_def isExpired_def demo_server_with_def demo_record_def demo_env_def)

section \<open>Replay, conflict and in-flight answers of POST /v1/blobs\<close>

text \<open>
  A request is admitted under key \<open>k\<close> as \<open>parsed\<close> when it passes the checks that come
  before the idempotency lookup: the trimmed header is the non-empty \<open>k\<close>, the body
  parses, and the payload is within the size limit.
\<close>

lemma postBlobs_existing:
  assumes "map_option trim (idempotencyKeyHeader req) = Some k" and "k \<noteq> []"
    and "parseBlobRequest (sha256hex rt) (body req) (celestiaNamespaceIdB64 cfg) = Inr parsed"
    and "ParsedBlobRequest.payloadBytes parsed \<le> maxPayloadBytes cfg"
    and "live (idempotencyStore srv) (t_request env) k r"
  shows "postBlobs rt cfg env req srv = (respondExisting k parsed r, srv)"
  using assms by (auto simp add: postBlobs_def get_live)


text \<open>
  C1.  When the key of an admitted request has a live record in a terminal state
  (completed or failed) with the request's fingerprint, the answer carries the stored
  \<open>responseStatus\<close> and the properties of the stored \<open>responseBody\<close>, the \<open>idempotency\<close>
  property being set to the key, \<open>replayed = true\<close> and the stored status.  The server
  state after the call is the state before it: the record is not modified, no quote is
  computed or cached, and nothing is sent to the pricing sources or to the backend.
\<close>

theorem replay_terminal_record:
  assumes "map_option trim (idempotencyKeyHeader req) = Some k" and "k \<noteq> []"
    and "parseBlobRequest (sha256hex rt) (body req) (celestiaNamespaceIdB64 cfg) = Inr parsed"
    and "ParsedBlobRequest.payloadBytes parsed \<le> maxPayloadBytes cfg"
    and "live (idempotencyStore srv) (t_request env) k r"
    and "IdempotencyRecord.fingerprint r = ParsedBlobRequest.fingerprint parsed"
    and "status r = completed \<or> status r = failed"
  shows "postBlobs rt cfg env req srv =
           (\<lparr>httpStatus = (case responseStatus r of Some st \<Rightarrow> st | None \<Rightarrow> 200),
             httpBody = JObj (set_prop ''idempotency''
                                (JObj [(''key'', JStr k), (''replayed'', JBool True),
                                       (''status'', JStr (if status r = completed then ''completed''
                                                          else ''failed''))])
                                (spread (responseBody r)))\<rparr>,
            srv)"
proof -
  from assms(7) have "status r \<noteq> processing" by auto
  with assms(6,7) have "respondExisting k parsed r =
      \<lparr>httpStatus = (case responseStatus r of Some st \<Rightarrow> st | None \<Rightarrow> 200),
        httpBody = JObj (set_prop ''idempotency''
                           (JObj [(''key'', JStr k), (''replayed'', JBool True),
                                  (''status'', JStr (if status r = completed then ''completed''
                                                     else ''failed''))])
                           (spread (responseBody r)))\<rparr>"
    by (auto simp add: respondExisting_def idempotencyTag_def)
  with postBlobs_existing [OF assms(1-5)] show ?thesis by simp
qed

theorem replay_terminal_record_witness:
  "postBlobs demo_runtime demo_config demo_env demo_request
     (demo_server_with (demo_record completed)) =
     (\<lparr>httpStatus = 200,
       httpBody = JObj [(''status'', JStr ''submitted''),
                        (''idempotency'',
                           JObj [(''key'', JStr ''demo-001''), (''replayed'', JBool True),
                                 (''status'', JStr ''completed'')])]\<rparr>,
      demo_server_with (demo_record completed))"
proof -
  have "ParsedBlobRequest.payloadBytes demo_parsed \<le> maxPayloadBytes demo_config"
    by (simp add: demo_parsed_def demo_config_def)
  moreover have "IdempotencyRecord.fingerprint (demo_record completed)
      = ParsedBlobRequest.fingerprint demo_parsed"
    by (simp add: demo_record_def)
  moreover have "status (demo_record completed) = completed \<or> status (demo_record completed) = failed"
    by (simp add: demo_record_def)
  ultimately show ?thesis
    using replay_terminal_record [OF demo_key _ demo_parse _ demo_live, of completed]
    by (simp add: demo_record_def idempotencyTag_def)
qed




section \<open>Trimming of the Idempotency-Key header\<close>






section \<open>Quote cache\<close>

lemma getOrCreateQuote_hit:
  assumes "trim h = k" and "k \<noteq> []"
    and "quoteByIdempotencyKey srv k = Some e"
    and "QuoteCacheEntry.fingerprint e = ParsedBlobRequest.fingerprint parsed"
    and "t_request env < expiresAt e"
  shows "getOrCreateQuote rt cfg env parsed (Some h) srv = (Inr (entry_quote e), srv)"
  using assms by (simp add: getOrCreateQuote_def)

lemma getOrCreateQuote_miss:
  assumes "trim h = k" and "k \<noteq> []"
    and "case quoteByIdempotencyKey srv k of
           None \<Rightarrow> True
         | Some e \<Rightarrow> QuoteCacheEntry.fingerprint e \<noteq> ParsedBlobRequest.fingerprint parsed
                      \<or> expiresAt e \<le> t_request env"
    and "quote rt (pricingEngine srv) (upstream env) (t_request env)
           (ParsedBlobRequest.payloadBytes parsed) = (res, pe', calls)"
  shows "getOrCreateQuote rt cfg env parsed (Some h) srv =
           (res,
            case res of
              Inl err \<Rightarrow> srv\<lparr>pricingEngine := pe', sent := sent srv @ calls\<rparr>
            | Inr q \<Rightarrow>
                srv\<lparr>pricingEngine := pe', sent := sent srv @ calls,
                    quoteByIdempotencyKey := (quoteByIdempotencyKey srv)
                      (k \<mapsto> \<lparr>QuoteCacheEntry.fingerprint = ParsedBlobRequest.fingerprint parsed,
                              entry_quote = q,
                              expiresAt = t_quoted env + idempotencyTtlMs cfg\<rparr>)\<rparr>)"
  using assms by (auto simp add: getOrCreateQuote_def split: option.splits sum.splits)

lemma getOrCreateQuote_no_key:
  assumes "quote rt (pricingEngine srv) (upstream env) (t_request env)
           (ParsedBlobRequest.payloadBytes parsed) = (res, pe', calls)"
  shows "getOrCreateQuote rt cfg env parsed None srv =
           (res, srv\<lparr>pricingEngine := pe', sent := sent srv @ calls\<rparr>)"
  using assms by (simp add: getOrCreateQuote_def Let_def split: sum.splits)

lemma getOrCreateQuote_stored:
  assumes "trim h = k" and "k \<noteq> []"
    and "getOrCreateQuote rt cfg env parsed (Some h) srv = (Inr q, srv1)"
  shows "\<exists>e. quoteByIdempotencyKey srv1 k = Some e \<and> entry_quote e = q
             \<and> QuoteCacheEntry.fingerprint e = ParsedBlobRequest.fingerprint parsed
             \<and> (t_request env < expiresAt e \<or> expiresAt e = t_quoted env + idempotencyTtlMs cfg)"
proof (cases "case quoteByIdempotencyKey srv k of
           None \<Rightarrow> True
         | Some e \<Rightarrow> QuoteCacheEntry.fingerprint e \<noteq> ParsedBlobRequest.fingerprint parsed
                      \<or> expiresAt e \<le> t_request env")
  case True
  obtain res pe' calls where q: "quote rt (pricingEngine srv) (upstream env) (t_request env)
           (ParsedBlobRequest.payloadBytes parsed) = (res, pe', calls)"
    by (cases "quote rt (pricingEngine srv) (upstream env) (t_request env)
           (ParsedBlobRequest.payloadBytes parsed)") auto
  from getOrCreateQuote_miss [OF assms(1,2) True q, of cfg] assms(3)
  show ?thesis by (cases res) auto
next
  case False
  then obtain e where e: "quoteByIdempotencyKey srv k = Some e"
      "QuoteCacheEntry.fingerprint e = ParsedBlobRequest.fingerprint parsed"
      "t_request env < expiresAt e"
    by (auto split: option.splits)
  from getOrCreateQuote_hit [OF assms(1,2) e, of rt cfg] assms(3) e
  show ?thesis by auto
qed

lemma getOrCreateQuote_computed_entry:
  assumes "trim h = k" and "k \<noteq> []"
    and "case quoteByIdempotencyKey srv k of
           None \<Rightarrow> True
         | Some e \<Rightarrow> QuoteCacheEntry.fingerprint e \<noteq> ParsedBlobRequest.fingerprint parsed
                      \<or> expiresAt e \<le> t_request env"
    and "getOrCreateQuote rt cfg env parsed (Some h) srv = (Inr q, srv1)"
  shows "quoteByIdempotencyKey srv1 k
           = Some \<lparr>QuoteCacheEntry.fingerprint = ParsedBlobRequest.fingerprint parsed,
                   entry_quote = q, expiresAt = t_quoted env + idempotencyTtlMs cfg\<rparr>"
proof -
  obtain res pe' calls where qq: "quote rt (pricingEngine srv) (upstream env) (t_request env)
           (ParsedBlobRequest.payloadBytes parsed) = (res, pe', calls)"
    by (cases "quote rt (pricingEngine srv) (upstream env) (t_request env)
           (ParsedBlobRequest.payloadBytes parsed)") auto
  from getOrCreateQuote_miss [OF assms(1-3) qq, of cfg] assms(4)
  show ?thesis by (cases res) auto
qed

text \<open>
  C5.  For a key whose trimmed value \<open>k\<close> is not empty: (1) a cache entry for \<open>k\<close> that
  stores the request's fingerprint and has not expired is returned as it is, whatever
  the upstream answers are, and the server state, including the log of requests sent
  out, is unchanged; (2) after a call that returned a quote, every later call for the
  same key and fingerprint made before the entry expires returns the very same quote,
  whatever the upstream answers have become; in particular a quote that was computed
  is stored under \<open>k\<close> with the request's fingerprint and with \<open>expiresAt\<close> equal to the
  clock reading after the computation plus \<open>idempotencyTtlMs\<close>, so every call that
  arrives less than \<open>idempotencyTtlMs\<close> after that reading returns it again, with the
  state unchanged; (3) when there is no entry, or its fingerprint differs, or it has
  expired, the result is that of a fresh \<open>PricingEngine.quote\<close> and the requests of
  that computation are sent.  (4) Without a key the result is always that of a fresh
  computation and the cache is left as it was.
\<close>

theorem quote_cache_hit_and_miss:
  assumes "trim h = k" and "k \<noteq> []"
  shows "(\<forall>e. quoteByIdempotencyKey srv k = Some e
               \<and> QuoteCacheEntry.fingerprint e = ParsedBlobRequest.fingerprint parsed
               \<and> t_request env < expiresAt e
             \<longrightarrow> getOrCreateQuote rt cfg env parsed (Some h) srv = (Inr (entry_quote e), srv))
       \<and> (\<forall>q srv1. getOrCreateQuote rt cfg env parsed (Some h) srv = (Inr q, srv1)
             \<longrightarrow> (\<exists>e. quoteByIdempotencyKey srv1 k = Some e \<and> entry_quote e = q
                     \<and> (\<forall>env2. t_request env2 < expiresAt e
                           \<longrightarrow> getOrCreateQuote rt cfg env2 parsed (Some h) srv1 = (Inr q, srv1))))
       \<and> (\<forall>q srv1. (case quoteByIdempotencyKey srv k of
                      None \<Rightarrow> True
                    | Some e \<Rightarrow> QuoteCacheEntry.fingerprint e \<noteq> ParsedBlobRequest.fingerprint parsed
                                 \<or> expiresAt e \<le> t_request env)
                 \<and> getOrCreateQuote rt cfg env parsed (Some h) srv = (Inr q, srv1)
             \<longrightarrow> quoteByIdempotencyKey srv1 k
                   = Some \<lparr>QuoteCacheEntry.fingerprint = ParsedBlobRequest.fingerprint parsed,
                           entry_quote = q,
                           expiresAt = t_quoted env + idempotencyTtlMs cfg\<rparr>
                 \<and> (\<forall>env2. t_request env2 < t_quoted env + idempotencyTtlMs cfg
                        \<longrightarrow> getOrCreateQuote rt cfg env2 parsed (Some h) srv1 = (Inr q, srv1)))
       \<and> ((case quoteByIdempotencyKey srv k of
              None \<Rightarrow> True
            | Some e \<Rightarrow> QuoteCacheEntry.fingerprint e \<noteq> ParsedBlobRequest.fingerprint parsed
                         \<or> expiresAt e \<le> t_request env)
             \<longrightarrow> fst (getOrCreateQuote rt cfg env parsed (Some h) srv)
                   = fst (quote rt (pricingEngine srv) (upstream env) (t_request env)
                            (ParsedBlobRequest.payloadBytes parsed))
               \<and> sent (snd (getOrCreateQuote rt cfg env parsed (Some h) srv))
                   = sent srv @ snd (snd (quote rt (pricingEngine srv) (upstream env) (t_request env)
                            (ParsedBlobRequest.payloadBytes parsed))))
       \<and> fst (getOrCreateQuote rt cfg env parsed None srv)
             = fst (quote rt (pricingEngine srv) (upstream env) (t_request env)
                      (ParsedBlobRequest.payloadBytes parsed))
       \<and> quoteByIdempotencyKey (snd (getOrCreateQuote rt cfg env parsed None srv))
             = quoteByIdempotencyKey srv"
proof (intro conjI allI impI)
  fix e
  assume "quoteByIdempotencyKey srv k = Some e
               \<and> QuoteCacheEntry.fingerprint e = ParsedBlobRequest.fingerprint parsed
               \<and> t_request env < expiresAt e"
  then show "getOrCreateQuote rt cfg env parsed (Some h) srv = (Inr (entry_quote e), srv)"
    using getOrCreateQuote_hit [OF assms] by blast
next
  fix q srv1
  assume first: "getOrCreateQuote rt cfg env parsed (Some h) srv = (Inr q, srv1)"
  from getOrCreateQuote_stored [OF assms first]
  obtain e where e: "quoteByIdempotencyKey srv1 k = Some e" "entry_quote e = q"
      "QuoteCacheEntry.fingerprint e = ParsedBlobRequest.fingerprint parsed"
    by blast
  have "\<forall>env2. t_request env2 < expiresAt e
          \<longrightarrow> getOrCreateQuote rt cfg env2 parsed (Some h) srv1 = (Inr q, srv1)"
    using getOrCreateQuote_hit [OF assms e(1) e(3)] e(2) by simp
  with e show "\<exists>e. quoteByIdempotencyKey srv1 k = Some e \<and> entry_quote e = q
                     \<and> (\<forall>env2. t_request env2 < expiresAt e
                           \<longrightarrow> getOrCreateQuote rt cfg env2 parsed (Some h) srv1 = (Inr q, srv1))"
    by blast
next
  fix q srv1
  assume "(case quoteByIdempotencyKey srv k of
                      None \<Rightarrow> True
                    | Some e \<Rightarrow> QuoteCacheEntry.fingerprint e \<noteq> ParsedBlobRequest.fingerprint parsed
                                 \<or> expiresAt e \<le> t_request env)
                 \<and> getOrCreateQuote rt cfg env parsed (Some h) srv = (Inr q, srv1)"
  then show "quoteByIdempotencyKey srv1 k
                   = Some \<lparr>QuoteCacheEntry.fingerprint = ParsedBlobRequest.fingerprint parsed,
                           entry_quote = q,
                           expiresAt = t_quoted env + idempotencyTtlMs cfg\<rparr>"
    by (elim conjE) (rule getOrCreateQuote_computed_entry [OF assms])
next
  fix q srv1 and env2 :: Env
  assume "(case quoteByIdempotencyKey srv k of
                      None \<Rightarrow> True
                    | Some e \<Rightarrow> QuoteCacheEntry.fingerprint e \<noteq> ParsedBlobRequest.fingerprint parsed
                                 \<or> expiresAt e \<le> t_request env)
                 \<and> getOrCreateQuote rt cfg env parsed (Some h) srv = (Inr q, srv1)"
  then have stored: "quoteByIdempotencyKey srv1 k
                   = Some \<lparr>QuoteCacheEntry.fingerprint = ParsedBlobRequest.fingerprint parsed,
                           entry_quote = q,
                           expiresAt = t_quoted env + idempotencyTtlMs cfg\<rparr>"
    by (elim conjE) (rule getOrCreateQuote_computed_entry [OF assms])
  assume "t_request env2 < t_quoted env + idempotencyTtlMs cfg"
  then show "getOrCreateQuote rt cfg env2 parsed (Some h) srv1 = (Inr q, srv1)"
    using getOrCreateQuote_hit [OF assms stored] by simp
next
  obtain res pe' calls where q: "quote rt (pricingEngine srv) (upstream env) (t_request env)
           (ParsedBlobRequest.payloadBytes parsed) = (res, pe', calls)"
    by (cases "quote rt (pricingEngine srv) (upstream env) (t_request env)
           (ParsedBlobRequest.payloadBytes parsed)") auto
  {
    assume miss: "case quoteByIdempotencyKey srv k of
              None \<Rightarrow> True
            | Some e \<Rightarrow> QuoteCacheEntry.fingerprint e \<noteq> ParsedBlobRequest.fingerprint parsed
                         \<or> expiresAt e \<le> t_request env"
    from getOrCreateQuote_miss [OF assms miss q, of cfg] q
    show "fst (getOrCreateQuote rt cfg env parsed (Some h) srv)
                   = fst (quote rt (pricingEngine srv) (upstream env) (t_request env)
                            (ParsedBlobRequest.payloadBytes parsed))"
      by simp
    from getOrCreateQuote_miss [OF assms miss q, of cfg] q
    show "sent (snd (getOrCreateQuote rt cfg env parsed (Some h) srv))
                   = sent srv @ snd (snd (quote rt (pricingEngine srv) (upstream env) (t_request env)
                            (ParsedBlobRequest.payloadBytes parsed)))"
      by (cases res) simp_all
  }
  from getOrCreateQuote_no_key [OF q, of cfg] q
  show "fst (getOrCreateQuote rt cfg env parsed None srv)
             = fst (quote rt (pricingEngine srv) (upstream env) (t_request env)
                      (ParsedBlobRequest.payloadBytes parsed))"
    by simp
  from getOrCreateQuote_no_key [OF q, of cfg]
  show "quoteByIdempotencyKey (snd (getOrCreateQuote rt cfg env parsed None srv))
             = quoteByIdempotencyKey srv"
    by simp
qed

lemma demo_trim: "trim '' demo-001 '' = ''demo-001''"
  by (simp add: trim_def isWhiteSpace_def)

lemma demo_quote_computed:
  "quote demo_runtime demo_pricing demo_upstream 1000 11 =
     (Inr demo_quote,
      demo_pricing\<lparr>cachedTiaUsd := Some \<lparr>cachedValue = 4, fetchedAtMs = 1000\<rparr>\<rparr>,
      [CeleniumEstimateGas mainnet 11, CeleniumGasPrice mainnet, CoinGeckoSimplePrice])"
  by (simp add: quote_def loadTiaUsd_def demo_pricing_def demo_upstream_def demo_quote_def
      roundToUsdPrice_def toFixed_def digits_small digits_large)

lemma demo_first_quote:
  "getOrCreateQuote demo_runtime demo_config demo_env demo_parsed (Some '' demo-001 '') demo_server
     = (Inr demo_quote,
        demo_server_cached\<lparr>pricingEngine :=
            demo_pricing\<lparr>cachedTiaUsd := Some \<lparr>cachedValue = 4, fetchedAtMs = 1000\<rparr>\<rparr>,
          sent := [CeleniumEstimateGas mainnet 11, CeleniumGasPrice mainnet, CoinGeckoSimplePrice]\<rparr>)"
proof -
  have q: "quote demo_runtime (pricingEngine demo_server) (upstream demo_env) (t_request demo_env)
      (ParsedBlobRequest.payloadBytes demo_parsed) =
     (Inr demo_quote,
      demo_pricing\<lparr>cachedTiaUsd := Some \<lparr>cachedValue = 4, fetchedAtMs = 1000\<rparr>\<rparr>,
      [CeleniumEstimateGas mainnet 11, CeleniumGasPrice mainnet, CoinGeckoSimplePrice])"
    using demo_quote_computed by (simp add: demo_server_def demo_env_def demo_parsed_def)
  have miss: "case quoteByIdempotencyKey demo_server ''demo-001'' of
           None \<Rightarrow> True
         | Some e \<Rightarrow> QuoteCacheEntry.fingerprint e \<noteq> ParsedBlobRequest.fingerprint demo_parsed
                      \<or> expiresAt e \<le> t_request demo_env"
    by (simp add: demo_server_def)
  from getOrCreateQuote_miss [OF demo_trim _ miss q, of demo_config]
  show ?thesis
    by (simp add: demo_server_cached_def demo_server_def demo_env_def demo_config_def)
qed

theorem quote_cache_hit_and_miss_witness:
  "getOrCreateQuote demo_runtime demo_config demo_env_later demo_parsed (Some '' demo-001 '')
       demo_server_cached = (Inr demo_quote, demo_server_cached)
   \<and> fst (getOrCreateQuote demo_runtime demo_config demo_env_later demo_parsed (Some '' demo-001 '')
       (snd (getOrCreateQuote demo_runtime demo_config demo_env demo_parsed (Some '' demo-001 '')
               demo_server))) = Inr demo_quote
   \<and> fst (getOrCreateQuote demo_runtime demo_config demo_env demo_parsed (Some '' demo-001 '')
            demo_server) = Inr demo_quote
   \<and> sent (snd (getOrCreateQuote demo_runtime demo_config demo_env demo_parsed (Some '' demo-001 '')
            demo_server))
       = [CeleniumEstimateGas mainnet 11, CeleniumGasPrice mainnet, CoinGeckoSimplePrice]
   \<and> quoteByIdempotencyKey
         (snd (getOrCreateQuote demo_runtime demo_config demo_env demo_parsed (Some '' demo-001 '')
                 demo_server)) ''demo-001''
       = Some \<lparr>QuoteCacheEntry.fingerprint = ParsedBlobRequest.fingerprint demo_parsed,
               entry_quote = demo_quote, expiresAt = 1200 + 86400000\<rparr>"
proof -
  have ne: "''demo-001'' \<noteq> []" by simp
  note cached = quote_cache_hit_and_miss [OF demo_trim ne, of demo_server_cached demo_parsed
      demo_env_later demo_runtime demo_config]
  note fresh = quote_cache_hit_and_miss [OF demo_trim ne, of demo_server demo_parsed
      demo_env demo_runtime demo_config]
  have hit: "quoteByIdempotencyKey demo_server_cached ''demo-001''
        = Some \<lparr>QuoteCacheEntry.fingerprint = ParsedBlobRequest.fingerprint demo_parsed,
                entry_quote = demo_quote, expiresAt = 86401200\<rparr>"
    by (simp add: demo_server_cached_def)
  have c1: "getOrCreateQuote demo_runtime demo_config demo_env_later demo_parsed (Some '' demo-001 '')
       demo_server_cached = (Inr demo_quote, demo_server_cached)"
    using cached hit by (simp add: demo_env_later_def)
  have miss: "case quoteByIdempotencyKey demo_server ''demo-001'' of
           None \<Rightarrow> True
         | Some e \<Rightarrow> QuoteCacheEntry.fingerprint e \<noteq> ParsedBlobRequest.fingerprint demo_parsed
                      \<or> expiresAt e \<le> t_request demo_env"
    by (simp add: demo_server_def)
  define srv1 where "srv1 = demo_server_cached\<lparr>pricingEngine :=
            demo_pricing\<lparr>cachedTiaUsd := Some \<lparr>cachedValue = 4, fetchedAtMs = 1000\<rparr>\<rparr>,
          sent := [CeleniumEstimateGas mainnet 11, CeleniumGasPrice mainnet, CoinGeckoSimplePrice]\<rparr>"
  have first: "getOrCreateQuote demo_runtime demo_config demo_env demo_parsed (Some '' demo-001 '')
      demo_server = (Inr demo_quote, srv1)"
    unfolding srv1_def by (rule demo_first_quote)
  from fresh have "\<forall>q s1. getOrCreateQuote demo_runtime demo_config demo_env demo_parsed
          (Some '' demo-001 '') demo_server = (Inr q, s1)
        \<longrightarrow> (\<exists>e. quoteByIdempotencyKey s1 ''demo-001'' = Some e \<and> entry_quote e = q
              \<and> (\<forall>env2. t_request env2 < expiresAt e
                    \<longrightarrow> getOrCreateQuote demo_runtime demo_config env2 demo_parsed
                          (Some '' demo-001 '') s1 = (Inr q, s1)))"
    by (rule conjunct2 [THEN conjunct1])
  with first obtain e where e: "quoteByIdempotencyKey srv1 ''demo-001'' = Some e"
      "\<forall>env2. t_request env2 < expiresAt e
          \<longrightarrow> getOrCreateQuote demo_runtime demo_config env2 demo_parsed (Some '' demo-001 '') srv1
              = (Inr demo_quote, srv1)"
    by blast
  from e(1) have "expiresAt e = 86401200"
    by (auto simp add: srv1_def demo_server_cached_def)
  moreover have "t_request demo_env_later = 5000" by (simp add: demo_env_later_def)
  ultimately have "getOrCreateQuote demo_runtime demo_config demo_env_later demo_parsed
      (Some '' demo-001 '') srv1 = (Inr demo_quote, srv1)"
    using e(2) by simp
  with first have c2: "fst (getOrCreateQuote demo_runtime demo_config demo_env_later demo_parsed
       (Some '' demo-001 '')
       (snd (getOrCreateQuote demo_runtime demo_config demo_env demo_parsed (Some '' demo-001 '')
               demo_server))) = Inr demo_quote"
    by simp
  from fresh miss have c3: "fst (getOrCreateQuote demo_runtime demo_config demo_env demo_parsed
        (Some '' demo-001 '') demo_server)
      = fst (quote demo_runtime (pricingEngine demo_server) (upstream demo_env) (t_request demo_env)
               (ParsedBlobRequest.payloadBytes demo_parsed))"
    and c4: "sent (snd (getOrCreateQuote demo_runtime demo_config demo_env demo_parsed
        (Some '' demo-001 '') demo_server))
      = sent demo_server @ snd (snd (quote demo_runtime (pricingEngine demo_server) (upstream demo_env)
               (t_request demo_env) (ParsedBlobRequest.payloadBytes demo_parsed)))"
    by blast+
  have q: "quote demo_runtime (pricingEngine demo_server) (upstream demo_env) (t_request demo_env)
      (ParsedBlobRequest.payloadBytes demo_parsed) =
     (Inr demo_quote,
      demo_pricing\<lparr>cachedTiaUsd := Some \<lparr>cachedValue = 4, fetchedAtMs = 1000\<rparr>\<rparr>,
      [CeleniumEstimateGas mainnet 11, CeleniumGasPrice mainnet, CoinGeckoSimplePrice])"
    using demo_quote_computed by (simp add: demo_server_def demo_env_def demo_parsed_def)
  from fresh have "\<forall>q s1. (case quoteByIdempotencyKey demo_server ''demo-001'' of
                      None \<Rightarrow> True
                    | Some e \<Rightarrow> QuoteCacheEntry.fingerprint e
                                   \<noteq> ParsedBlobRequest.fingerprint demo_parsed
                                 \<or> expiresAt e \<le> t_request demo_env)
                 \<and> getOrCreateQuote demo_runtime demo_config demo_env demo_parsed
                       (Some '' demo-001 '') demo_server = (Inr q, s1)
             \<longrightarrow> quoteByIdempotencyKey s1 ''demo-001''
                   = Some \<lparr>QuoteCacheEntry.fingerprint = ParsedBlobRequest.fingerprint demo_parsed,
                           entry_quote = q,
                           expiresAt = t_quoted demo_env + idempotencyTtlMs demo_config\<rparr>
                 \<and> (\<forall>env2. t_request env2 < t_quoted demo_env + idempotencyTtlMs demo_config
                        \<longrightarrow> getOrCreateQuote demo_runtime demo_config env2 demo_parsed
                              (Some '' demo-001 '') s1 = (Inr q, s1))"
    by (rule conjunct2 [THEN conjunct2, THEN conjunct1])
  from this [THEN spec, THEN spec, THEN mp, OF conjI, OF miss first]
  have "quoteByIdempotencyKey srv1 ''demo-001''
      = Some \<lparr>QuoteCacheEntry.fingerprint = ParsedBlobRequest.fingerprint demo_parsed,
              entry_quote = demo_quote,
              expiresAt = t_quoted demo_env + idempotencyTtlMs demo_config\<rparr>"
    by (rule conjunct1)
  with first have c5: "quoteByIdempotencyKey
         (snd (getOrCreateQuote demo_runtime demo_config demo_env demo_parsed (Some '' demo-001 '')
                 demo_server)) ''demo-001''
       = Some \<lparr>QuoteCacheEntry.fingerprint = ParsedBlobRequest.fingerprint demo_parsed,
               entry_quote = demo_quote, expiresAt = 1200 + 86400000\<rparr>"
    by (simp add: demo_env_def demo_config_def)
  from c1 c2 c3 c4 q have "getOrCreateQuote demo_runtime demo_config demo_env_later demo_parsed
       (Some '' demo-001 '') demo_server_cached = (Inr demo_quote, demo_server_cached)
   \<and> fst (getOrCreateQuote demo_runtime demo_config demo_env_later demo_parsed (Some '' demo-001 '')
       (snd (getOrCreateQuote demo_runtime demo_config demo_env demo_parsed (Some '' demo-001 '')
               demo_server))) = Inr demo_quote
   \<and> fst (getOrCreateQuote demo_runtime demo_config demo_env demo_parsed (Some '' demo-001 '')
            demo_server) = Inr demo_quote
   \<and> sent (snd (getOrCreateQuote demo_runtime demo_config demo_env demo_parsed (Some '' demo-001 '')
            demo_server))
       = [CeleniumEstimateGas mainnet 11, CeleniumGasPrice mainnet, CoinGeckoSimplePrice]"
    by (simp add: demo_server_def)
  with c5 show ?thesis by (simp only: conj_assoc) 
qed


section \<open>Which records an entry point can touch\<close>

lemma get_ttl [simp]: "ttlMs (snd (get now k s)) = ttlMs s"
  by (simp add: get_def pruneKey_def split: option.split)

lemma get_other [simp]: "k' \<noteq> k \<Longrightarrow> records (snd (get now k' s)) k = records s k"
  by (simp add: get_def pruneKey_def split: option.split)

lemma get_result: "fst (get now k s) = records (snd (get now k s)) k"
  by (simp add: get_def Let_def)

lemma get_None_after [simp]: "fst (get now k s) = None \<Longrightarrow> get now k (snd (get now k s)) = get now k s"
  by (auto simp add: get_def pruneKey_def Let_def split: option.splits if_splits)

lemma store_begin_ttl [simp]: "ttlMs (snd (store_begin now now' k f s)) = ttlMs s"
  by (cases "get now' k s")
     (auto simp add: store_begin_def Let_def split: option.split dest: arg_cong [where f = "\<lambda>p. ttlMs (snd p)"])

lemma store_begin_other [simp]:
  "k' \<noteq> k \<Longrightarrow> records (snd (store_begin now now' k' f s)) k = records s k"
  by (cases "get now' k' s")
     (auto simp add: store_begin_def Let_def split: option.split
           dest: arg_cong [where f = "\<lambda>p. records (snd p) k"])


lemma complete_ttl [simp]: "ttlMs (complete now k rs rb s) = ttlMs s"
  by (simp add: complete_def split: option.split)

lemma fail_ttl [simp]: "ttlMs (fail now k rs rb s) = ttlMs s"
  by (simp add: fail_def split: option.split)

lemma complete_other [simp]: "k' \<noteq> k \<Longrightarrow> records (complete now k' rs rb s) k = records s k"
  by (simp add: complete_def split: option.split)

lemma fail_other [simp]: "k' \<noteq> k \<Longrightarrow> records (fail now k' rs rb s) k = records s k"
  by (simp add: fail_def split: option.split)









section \<open>A first request under a key\<close>



section \<open>Runs of the server keep live terminal records\<close>








section \<open>Outcome of the try block\<close>






section \<open>Failed submissions\<close>












section \<open>Lifecycle of a record\<close>





section \<open>Exchange rate and gas lookups of the Pricing Engine\<close>

lemma loadTiaUsd_fallback:
  assumes "tiaUsdOrigin pe up now = FallbackRate"
  shows "fst (loadTiaUsd pe up now) = tiaUsdFallback (config pe)"
  using assms
  by (auto simp add: loadTiaUsd_def tiaUsdOrigin_def split: if_splits option.splits tia_response.splits)

lemma quote_Inr_iff:
  "(\<exists>q. fst (quote rt pe up now n) = Inr q)
     \<longleftrightarrow> (\<exists>g p. estimateGasForPfb up mainnet n = Inr g \<and> getGasPriceUtia up mainnet = Inr p)"
  by (cases "estimateGasForPfb up mainnet n"; cases "getGasPriceUtia up mainnet")
     (simp_all add: quote_def Let_def split: prod.split)

lemma quote_reports_rate:
  assumes "fst (quote rt pe up now n) = Inr q"
  shows "tiaUsd (mainnetReference q) = fst (loadTiaUsd pe up now)"
  using assms
  by (cases "estimateGasForPfb up mainnet n"; cases "getGasPriceUtia up mainnet")
     (auto simp add: quote_def Let_def split: prod.splits)

text \<open>
  C8, as stated, fails in one part: the quote carries the rate that was used, not where
  it came from.  With the configured fallback rate 0.5, a quote computed while the
  price source is down and a quote computed while the price source answers 0.5 are the
  same quote, though the first rate is the fallback and the second the fetched one.
\<close>

theorem rate_source_not_in_quote_counterexample:
  "tiaUsdOrigin demo_pricing demo_upstream_no_rate 1000 = FallbackRate
   \<and> tiaUsdOrigin demo_pricing demo_upstream_same_rate 1000 = FetchedRate
   \<and> fst (quote demo_runtime demo_pricing demo_upstream_no_rate 1000 11)
       = fst (quote demo_runtime demo_pricing demo_upstream_same_rate 1000 11)
   \<and> isl (fst (quote demo_runtime demo_pricing demo_upstream_no_rate 1000 11)) = False"
  by (simp add: tiaUsdOrigin_def quote_def loadTiaUsd_def demo_pricing_def Let_def
      demo_upstream_no_rate_def demo_upstream_same_rate_def demo_upstream_def)

text \<open>
  C8, amended.  \<open>loadTiaUsd\<close> always returns a rate: when the CoinGecko request fails
  or its value is rejected (not a number, not finite, or at most 0) the configured
  fallback rate is returned and nothing is thrown.  A quote is therefore returned if
  and only if both the gas estimate and the gas price are obtained; if either of them
  fails, the quote fails.  The returned quote reports the rate that was used, as
  \<open>tiaUsd\<close>, and not its source.
\<close>

theorem rate_fallback_and_gas_failure:
  "(tiaUsdOrigin pe up now = FallbackRate \<longrightarrow>
      fst (loadTiaUsd pe up now) = tiaUsdFallback (config pe))
   \<and> (tiaUsdSource (config pe) = coingecko \<and> cachedTiaUsd pe = None
        \<and> (\<forall>v. coingeckoSimplePrice up = Usd v \<longrightarrow> v \<le> 0)
      \<longrightarrow> tiaUsdOrigin pe up now = FallbackRate)
   \<and> ((\<exists>q. fst (quote rt pe up now n) = Inr q)
        \<longleftrightarrow> (\<exists>g p. estimateGasForPfb up mainnet n = Inr g \<and> getGasPriceUtia up mainnet = Inr p))
   \<and> (\<forall>q. fst (quote rt pe up now n) = Inr q
        \<longrightarrow> tiaUsd (mainnetReference q) = fst (loadTiaUsd pe up now))"
proof (intro conjI allI impI)
  assume "tiaUsdOrigin pe up now = FallbackRate"
  then show "fst (loadTiaUsd pe up now) = tiaUsdFallback (config pe)"
    by (rule loadTiaUsd_fallback)
next
  assume "tiaUsdSource (config pe) = coingecko \<and> cachedTiaUsd pe = None
        \<and> (\<forall>v. coingeckoSimplePrice up = Usd v \<longrightarrow> v \<le> 0)"
  then show "tiaUsdOrigin pe up now = FallbackRate"
    by (auto simp add: tiaUsdOrigin_def split: tia_response.splits)
next
  show "(\<exists>q. fst (quote rt pe up now n) = Inr q)
        \<longleftrightarrow> (\<exists>g p. estimateGasForPfb up mainnet n = Inr g \<and> getGasPriceUtia up mainnet = Inr p)"
    by (rule quote_Inr_iff)
next
  fix q
  assume "fst (quote rt pe up now n) = Inr q"
  then show "tiaUsd (mainnetReference q) = fst (loadTiaUsd pe up now)"
    by (rule quote_reports_rate)
qed

theorem rate_fallback_and_gas_failure_witness:
  "fst (loadTiaUsd demo_pricing demo_upstream_no_rate 1000) = 0.5
   \<and> (\<exists>q. fst (quote demo_runtime demo_pricing demo_upstream_no_rate 1000 11) = Inr q
          \<and> tiaUsd (mainnetReference q) = 0.5)
   \<and> (\<forall>q. fst (quote demo_runtime demo_pricing demo_upstream_no_gas 1000 11) \<noteq> Inr q)"
proof -
  note a = rate_fallback_and_gas_failure [where pe = demo_pricing and up = demo_upstream_no_rate
      and now = 1000 and rt = demo_runtime and n = 11]
  note b = rate_fallback_and_gas_failure [where pe = demo_pricing and up = demo_upstream_no_gas
      and now = 1000 and rt = demo_runtime and n = 11]
  have src: "tiaUsdSource (config demo_pricing) = coingecko \<and> cachedTiaUsd demo_pricing = None
      \<and> (\<forall>v. coingeckoSimplePrice demo_upstream_no_rate = Usd v \<longrightarrow> v \<le> 0)"
    by (simp add: demo_pricing_def demo_upstream_no_rate_def)
  have fb: "tiaUsdFallback (config demo_pricing) = 0.5"
    by (simp add: demo_pricing_def)
  have gas: "\<exists>g p. estimateGasForPfb demo_upstream_no_rate mainnet 11 = Inr g
      \<and> getGasPriceUtia demo_upstream_no_rate mainnet = Inr p"
    by (rule exI [of _ 80000], rule exI [of _ "0.004"])
       (simp add: demo_upstream_no_rate_def demo_upstream_def)
  have nogas: "\<not> (\<exists>g p. estimateGasForPfb demo_upstream_no_gas mainnet 11 = Inr g
      \<and> getGasPriceUtia demo_upstream_no_gas mainnet = Inr p)"
    by (simp add: demo_upstream_no_gas_def demo_upstream_def)
  from a src have o: "tiaUsdOrigin demo_pricing demo_upstream_no_rate 1000 = FallbackRate"
    by blast
  with a fb have c1: "fst (loadTiaUsd demo_pricing demo_upstream_no_rate 1000) = 0.5"
    by simp
  from a gas obtain q where q: "fst (quote demo_runtime demo_pricing demo_upstream_no_rate 1000 11)
      = Inr q"
    by blast
  with a c1 have "tiaUsd (mainnetReference q) = 0.5" by simp
  with q have c2: "\<exists>q. fst (quote demo_runtime demo_pricing demo_upstream_no_rate 1000 11) = Inr q
          \<and> tiaUsd (mainnetReference q) = 0.5"
    by blast
  from b nogas have c3: "\<forall>q. fst (quote demo_runtime demo_pricing demo_upstream_no_gas 1000 11)
      \<noteq> Inr q"
    by blast
  from c1 c2 c3 show ?thesis by blast
qed


section \<open>Rounding and rendering of the charged price\<close>





lemma digits_not_empty: "digits n \<noteq> []"
  by (cases "n < 10") (simp_all add: digits_small digits_large)







section \<open>Strict base64\<close>

lemma b64char_code:
  "n < 64 \<Longrightarrow> (of_char (b64char n) :: nat) =
     (if n < 26 then n + 65 else if n < 52 then n + 71 else if n < 62 then n - 4
      else if n = 62 then 43 else 47)"
  by (simp add: b64char_def)

lemma b64char_alphabet:
  assumes "n < 64"
  shows "isBase64CharCode (of_char (b64char n))" and "(of_char (b64char n) :: nat) \<noteq> 61"
    and "b64char n \<noteq> CHR ''=''" and "unbase64 (b64char n) = Some n"
proof -
  note c = b64char_code [OF assms]
  show "isBase64CharCode (of_char (b64char n))"
    using assms unfolding c isBase64CharCode_def by (simp split: if_splits) arith
  show ne: "(of_char (b64char n) :: nat) \<noteq> 61"
    using assms unfolding c by (simp split: if_splits) arith
  show "b64char n \<noteq> CHR ''=''"
  proof
    assume "b64char n = CHR ''=''"
    then have "(of_char (b64char n) :: nat) = of_char (CHR ''='')" by simp
    with ne show False by simp
  qed
  show "unbase64 (b64char n) = Some n"
    using assms unfolding unbase64_def c Let_def by (simp split: if_splits) arith?
qed

lemma sextet_bounds:
  fixes a b c :: byte
  shows "unat a div 4 < 64" "(unat a mod 4) * 16 + unat b div 16 < 64"
    "(unat b mod 16) * 4 + unat c div 64 < 64" "unat c mod 64 < 64"
    "(unat a mod 4) * 16 < 64" "(unat b mod 16) * 4 < 64"
proof -
  have a: "unat a < 256" and b: "unat b < 256" and c: "unat c < 256"
    using unsigned_less [of a, where 'a = nat] unsigned_less [of b, where 'a = nat]
      unsigned_less [of c, where 'a = nat] by simp_all
  show "unat a div 4 < 64" using a by simp
  show "(unat a mod 4) * 16 + unat b div 16 < 64" using b by simp
  show "(unat b mod 16) * 4 + unat c div 64 < 64" using c by simp
  show "unat c mod 64 < 64" by simp
  show "(unat a mod 4) * 16 < 64" by simp
  show "(unat b mod 16) * 4 < 64" by simp
qed

lemma regroup:
  fixes a b c :: byte
  shows "(of_nat (unat a div 4 * 4 + ((unat a mod 4) * 16 + unat b div 16) div 16) :: byte) = a"
    and "(of_nat ((((unat a mod 4) * 16 + unat b div 16) mod 16) * 16
            + ((unat b mod 16) * 4 + unat c div 64) div 4) :: byte) = b"
    and "(of_nat ((((unat b mod 16) * 4 + unat c div 64) mod 4) * 64 + unat c mod 64) :: byte) = c"
    and "(of_nat (unat a div 4 * 4 + ((unat a mod 4) * 16) div 16) :: byte) = a"
    and "(of_nat ((((unat a mod 4) * 16 + unat b div 16) mod 16) * 16
            + ((unat b mod 16) * 4) div 4) :: byte) = b"
proof -
  have a: "unat a < 256" and b: "unat b < 256" and c: "unat c < 256"
    using unsigned_less [of a, where 'a = nat] unsigned_less [of b, where 'a = nat]
      unsigned_less [of c, where 'a = nat] by simp_all
  have b16: "unat b div 16 < 16" using b by simp
  have c64: "unat c div 64 < 4" using c by simp
  have x1: "((unat a mod 4) * 16 + unat b div 16) div 16 = unat a mod 4"
    using b16 by simp
  have x2: "((unat a mod 4) * 16 + unat b div 16) mod 16 = unat b div 16"
    using b16 by simp
  have y1: "((unat b mod 16) * 4 + unat c div 64) div 4 = unat b mod 16"
    using c64 by simp
  have y2: "((unat b mod 16) * 4 + unat c div 64) mod 4 = unat c div 64"
    using c64 by simp
  show "(of_nat (unat a div 4 * 4 + ((unat a mod 4) * 16 + unat b div 16) div 16) :: byte) = a"
    unfolding x1 by simp
  show "(of_nat ((((unat a mod 4) * 16 + unat b div 16) mod 16) * 16
            + ((unat b mod 16) * 4 + unat c div 64) div 4) :: byte) = b"
    unfolding x2 y1 by simp
  show "(of_nat ((((unat b mod 16) * 4 + unat c div 64) mod 4) * 64 + unat c mod 64) :: byte) = c"
    unfolding y2 by simp
  show "(of_nat (unat a div 4 * 4 + ((unat a mod 4) * 16) div 16) :: byte) = a"
    by simp
  show "(of_nat ((((unat a mod 4) * 16 + unat b div 16) mod 16) * 16
            + ((unat b mod 16) * 4) div 4) :: byte) = b"
    unfolding x2 by simp
qed

lemma toString_base64_length: "length (toString_base64 bs) mod 4 = 0"
  by (induction bs rule: toString_base64.induct) simp_all

lemma toString_base64_empty: "toString_base64 bs = [] \<longleftrightarrow> bs = []"
  by (cases bs rule: toString_base64.cases) simp_all

lemma scanLoop_alphabet:
  assumes "n < 64"
  shows "scanLoop len i False (b64char n # cs) = scanLoop len (Suc i) False cs"
  using b64char_alphabet(1,2) [OF assms] by (simp add: Let_def)

lemma scanLoop_padding:
  "int i \<ge> int len - 2 \<Longrightarrow> scanLoop len i p (CHR ''='' # cs) = scanLoop len (Suc i) True cs"
  by (simp add: Let_def)

lemma scanLoop_encoded:
  "len = i + length (toString_base64 bs) \<Longrightarrow> scanLoop len i False (toString_base64 bs)"
proof (induction bs arbitrary: i rule: toString_base64.induct)
  case (1 a b c rest)
  from "1.prems" have "len = Suc (Suc (Suc (Suc i))) + length (toString_base64 rest)" by simp
  from "1.IH" [OF this] show ?case
    by (simp add: scanLoop_alphabet sextet_bounds del: scanLoop.simps)
next
  case (2 a b)
  then have "int (Suc (Suc (Suc i))) \<ge> int len - 2" by simp
  from scanLoop_padding [OF this, of False "[]"] show ?case
    by (simp add: scanLoop_alphabet sextet_bounds del: scanLoop.simps) simp
next
  case (3 a)
  then have "int (Suc (Suc i)) \<ge> int len - 2" and "int (Suc (Suc (Suc i))) \<ge> int len - 2"
    by simp_all
  from scanLoop_padding [OF this(1), of False "[CHR ''='']"] scanLoop_padding [OF this(2), of True "[]"]
  show ?case
    by (simp add: scanLoop_alphabet sextet_bounds del: scanLoop.simps) simp
next
  case 4
  then show ?case by simp
qed

lemma sextets_alphabet:
  assumes "n < 64"
  shows "List.map_filter unbase64 (takeWhile (\<lambda>c. c \<noteq> CHR ''='') (b64char n # cs))
       = n # List.map_filter unbase64 (takeWhile (\<lambda>c. c \<noteq> CHR ''='') cs)"
  using b64char_alphabet(3,4) [OF assms] by (simp add: List.map_filter_simps)

lemma sextets_padding:
  "List.map_filter unbase64 (takeWhile (\<lambda>c. c \<noteq> CHR ''='') (CHR ''='' # cs)) = []"
  by (simp add: List.map_filter_simps)

lemma Buffer_from_toString: "Buffer_from_base64 (toString_base64 bs) = bs"
proof (induction bs rule: toString_base64.induct)
  case (1 a b c rest)
  define n1 where "n1 = unat a div 4"
  define n2 where "n2 = (unat a mod 4) * 16 + unat b div 16"
  define n3 where "n3 = (unat b mod 16) * 4 + unat c div 64"
  define n4 where "n4 = unat c mod 64"
  have bounds: "n1 < 64" "n2 < 64" "n3 < 64" "n4 < 64"
    unfolding n1_def n2_def n3_def n4_def by (rule sextet_bounds)+
  have e: "toString_base64 (a # b # c # rest)
      = b64char n1 # b64char n2 # b64char n3 # b64char n4 # toString_base64 rest"
    by (simp add: n1_def n2_def n3_def n4_def)
  have ih: "bytes_of_sextets (List.map_filter unbase64
      (takeWhile (\<lambda>c. c \<noteq> CHR ''='') (toString_base64 rest))) = rest"
    using 1 by (simp add: Buffer_from_base64_def)
  have "Buffer_from_base64 (toString_base64 (a # b # c # rest))
      = [of_nat (n1 * 4 + n2 div 16), of_nat ((n2 mod 16) * 16 + n3 div 4),
         of_nat ((n3 mod 4) * 64 + n4)] @ rest"
    unfolding Buffer_from_base64_def e
    by (simp only: sextets_alphabet [OF bounds(1)] sextets_alphabet [OF bounds(2)]
        sextets_alphabet [OF bounds(3)] sextets_alphabet [OF bounds(4)]
        bytes_of_sextets.simps ih)
  moreover have "(of_nat (n1 * 4 + n2 div 16) :: byte) = a"
    unfolding n1_def n2_def by (rule regroup(1))
  moreover have "(of_nat ((n2 mod 16) * 16 + n3 div 4) :: byte) = b"
    unfolding n2_def n3_def by (rule regroup(2))
  moreover have "(of_nat ((n3 mod 4) * 64 + n4) :: byte) = c"
    unfolding n3_def n4_def by (rule regroup(3))
  ultimately show ?case by simp
next
  case (2 a b)
  define n1 where "n1 = unat a div 4"
  define n2 where "n2 = (unat a mod 4) * 16 + unat b div 16"
  define n3 where "n3 = (unat b mod 16) * 4"
  have bounds: "n1 < 64" "n2 < 64" "n3 < 64"
    unfolding n1_def n2_def n3_def by (rule sextet_bounds)+
  have e: "toString_base64 [a, b] = b64char n1 # b64char n2 # b64char n3 # CHR ''='' # []"
    by (simp add: n1_def n2_def n3_def)
  have "Buffer_from_base64 (toString_base64 [a, b])
      = [of_nat (n1 * 4 + n2 div 16), of_nat ((n2 mod 16) * 16 + n3 div 4)]"
    unfolding Buffer_from_base64_def e
    by (simp only: sextets_alphabet [OF bounds(1)] sextets_alphabet [OF bounds(2)]
        sextets_alphabet [OF bounds(3)] sextets_padding bytes_of_sextets.simps)
  moreover have "(of_nat (n1 * 4 + n2 div 16) :: byte) = a"
    unfolding n1_def n2_def by (rule regroup(1))
  moreover have "(of_nat ((n2 mod 16) * 16 + n3 div 4) :: byte) = b"
    unfolding n2_def n3_def by (rule regroup(5))
  ultimately show ?case by simp
next
  case (3 a)
  define n1 where "n1 = unat a div 4"
  define n2 where "n2 = (unat a mod 4) * 16"
  have bounds: "n1 < 64" "n2 < 64"
    unfolding n1_def n2_def by (rule sextet_bounds)+
  have e: "toString_base64 [a] = b64char n1 # b64char n2 # CHR ''='' # CHR ''='' # []"
    by (simp add: n1_def n2_def)
  have "Buffer_from_base64 (toString_base64 [a]) = [of_nat (n1 * 4 + n2 div 16)]"
    unfolding Buffer_from_base64_def e
    by (simp only: sextets_alphabet [OF bounds(1)] sextets_alphabet [OF bounds(2)]
        sextets_padding bytes_of_sextets.simps)
  moreover have "(of_nat (n1 * 4 + n2 div 16) :: byte) = a"
    unfolding n1_def n2_def by (rule regroup(4))
  ultimately show ?case by simp
next
  case 4
  show ?case by (simp add: Buffer_from_base64_def List.map_filter_simps)
qed

lemma decodeStrictBase64_Inr_iff:
  "decodeStrictBase64 s fieldName = Inr bs \<longleftrightarrow> bs \<noteq> [] \<and> s = toString_base64 bs"
proof
  assume "decodeStrictBase64 s fieldName = Inr bs"
  then show "bs \<noteq> [] \<and> s = toString_base64 bs"
    by (auto simp add: decodeStrictBase64_def Let_def split: if_splits)
next
  assume a: "bs \<noteq> [] \<and> s = toString_base64 bs"
  then have s: "s = toString_base64 bs" and ne: "bs \<noteq> []" by simp_all
  have "scanLoop (length s) 0 False s"
    unfolding s by (rule scanLoop_encoded) simp
  with ne show "decodeStrictBase64 s fieldName = Inr bs"
    by (simp add: decodeStrictBase64_def s toString_base64_length Buffer_from_toString)
qed

lemma is_padding_code: "(of_char c :: nat) = 61 \<longleftrightarrow> c = CHR ''=''"
proof
  assume "(of_char c :: nat) = 61"
  then have "(of_char c :: nat) = of_char (CHR ''='')" by simp
  then show "c = CHR ''=''" by (simp only: of_char_eq_iff)
qed simp

lemma scanLoop_padding_position:
  "scanLoop len i p cs \<Longrightarrow> j < length cs \<Longrightarrow> cs ! j = CHR ''='' \<Longrightarrow> int len - 2 \<le> int (i + j)"
proof (induction cs arbitrary: i p j)
  case Nil
  then show ?case by simp
next
  case (Cons c cs)
  show ?case
  proof (cases j)
    case 0
    with Cons.prems show ?thesis by (simp add: Let_def split: if_splits)
  next
    case (Suc j')
    from Cons.prems(1) obtain p' where "scanLoop len (i + 1) p' cs"
      by (auto simp add: Let_def split: if_splits)
    from Cons.IH [OF this, of j'] Cons.prems(2,3) Suc show ?thesis by simp
  qed
qed

lemma scanLoop_payload:
  "scanLoop len i p cs \<Longrightarrow> j < length cs \<Longrightarrow> cs ! j \<noteq> CHR ''='' \<Longrightarrow>
     isBase64CharCode (of_char (cs ! j)) \<and> \<not> p"
proof (induction cs arbitrary: i p j)
  case Nil
  then show ?case by simp
next
  case (Cons c cs)
  show ?case
  proof (cases j)
    case 0
    with Cons.prems show ?thesis
      by (auto simp add: Let_def is_padding_code split: if_splits)
  next
    case (Suc j')
    show ?thesis
    proof (cases "c = CHR ''=''")
      case True
      with Cons.prems(1) have "scanLoop len (i + 1) True cs"
        by (simp add: Let_def split: if_splits)
      from Cons.IH [OF this, of j'] Cons.prems(2,3) Suc show ?thesis by simp
    next
      case False
      with Cons.prems(1) have "scanLoop len (i + 1) p cs"
        by (simp add: Let_def is_padding_code split: if_splits)
      from Cons.IH [OF this, of j'] Cons.prems(2,3) Suc show ?thesis by simp
    qed
  qed
qed

lemma scanLoop_after_padding:
  "scanLoop len i p cs \<Longrightarrow> j' < j \<Longrightarrow> j < length cs \<Longrightarrow> cs ! j' = CHR ''=''
     \<Longrightarrow> cs ! j = CHR ''=''"
proof (induction cs arbitrary: i p j j')
  case Nil
  then show ?case by simp
next
  case (Cons c cs)
  from Cons.prems(2) obtain k where j: "j = Suc k" by (cases j) auto
  show ?case
  proof (cases j')
    case 0
    with Cons.prems(1,4) have t: "scanLoop len (i + 1) True cs"
      by (simp add: Let_def split: if_splits)
    show ?thesis
    proof (rule ccontr)
      assume "(c # cs) ! j \<noteq> CHR ''=''"
      with j have "cs ! k \<noteq> CHR ''=''" by simp
      from scanLoop_payload [OF t _ this] Cons.prems(3) j show False by simp
    qed
  next
    case (Suc k')
    from Cons.prems(1) obtain p' where "scanLoop len (i + 1) p' cs"
      by (auto simp add: Let_def split: if_splits)
    from Cons.IH [OF this, of k' k] Cons.prems(2,3,4) j Suc show ?thesis by simp
  qed
qed

lemma decodeStrictBase64_scan:
  "\<not> scanLoop (length s) 0 False s \<Longrightarrow> decodeStrictBase64 s fieldName = Inl (MustBeBase64 fieldName)"
  by (simp add: decodeStrictBase64_def)

text \<open>
  C6.  \<open>decodeStrictBase64\<close> returns bytes for a string exactly when the string is the
  base64 encoding of those bytes and they are not empty; so it accepts a string if and
  only if it is the canonical encoding of some non-empty byte string, and re-encoding
  what it returns gives the input back.  Everything else is rejected with a validation
  error: a length that is not a multiple of 4, a padding character before the last two
  positions, a padding character followed by a payload character, and a character
  outside the alphabet are rejected by the scan of the characters; a string that
  passes the scan but is not the encoding of what it decodes to (unused trailing bits
  that are not zero) is rejected as not canonical, and one that decodes to nothing as
  empty.
\<close>

theorem strict_base64_canonical:
  "(decodeStrictBase64 s fieldName = Inr bs \<longleftrightarrow> bs \<noteq> [] \<and> s = toString_base64 bs)
   \<and> ((\<exists>bs. decodeStrictBase64 s fieldName = Inr bs)
        \<longleftrightarrow> (\<exists>bs. bs \<noteq> [] \<and> s = toString_base64 bs))
   \<and> (decodeStrictBase64 s fieldName = Inr bs \<longrightarrow> toString_base64 bs = s)
   \<and> ((\<forall>bs. bs \<noteq> [] \<longrightarrow> s \<noteq> toString_base64 bs)
        \<longrightarrow> (\<exists>e. decodeStrictBase64 s fieldName = Inl e))
   \<and> (length s mod 4 \<noteq> 0 \<longrightarrow> decodeStrictBase64 s fieldName = Inl (MustBeBase64 fieldName))
   \<and> (\<forall>j. j < length s \<and> s ! j = CHR ''='' \<and> j + 2 < length s
        \<longrightarrow> decodeStrictBase64 s fieldName = Inl (MustBeBase64 fieldName))
   \<and> (\<forall>j j'. j' < j \<and> j < length s \<and> s ! j' = CHR ''='' \<and> s ! j \<noteq> CHR ''=''
        \<longrightarrow> decodeStrictBase64 s fieldName = Inl (MustBeBase64 fieldName))
   \<and> (\<forall>j. j < length s \<and> s ! j \<noteq> CHR ''='' \<and> \<not> isBase64CharCode (of_char (s ! j))
        \<longrightarrow> decodeStrictBase64 s fieldName = Inl (MustBeBase64 fieldName))
   \<and> (length s mod 4 = 0 \<and> scanLoop (length s) 0 False s \<and> Buffer_from_base64 s \<noteq> []
        \<and> toString_base64 (Buffer_from_base64 s) \<noteq> s
        \<longrightarrow> decodeStrictBase64 s fieldName = Inl (NotCanonicalBase64 fieldName))"
proof (intro conjI allI impI)
  show iff: "decodeStrictBase64 s fieldName = Inr bs \<longleftrightarrow> bs \<noteq> [] \<and> s = toString_base64 bs" for bs
    by (rule decodeStrictBase64_Inr_iff)
  then show "(\<exists>bs. decodeStrictBase64 s fieldName = Inr bs)
        \<longleftrightarrow> (\<exists>bs. bs \<noteq> [] \<and> s = toString_base64 bs)"
    by blast
  show "toString_base64 bs = s" if "decodeStrictBase64 s fieldName = Inr bs"
    using that iff by simp
  show "\<exists>e. decodeStrictBase64 s fieldName = Inl e"
    if "\<forall>bs. bs \<noteq> [] \<longrightarrow> s \<noteq> toString_base64 bs"
  proof (cases "decodeStrictBase64 s fieldName")
    case (Inl e)
    then show ?thesis by blast
  next
    case (Inr bs)
    with iff that show ?thesis by blast
  qed
  show "decodeStrictBase64 s fieldName = Inl (MustBeBase64 fieldName)" if "length s mod 4 \<noteq> 0"
    using that by (simp add: decodeStrictBase64_def)
  show "decodeStrictBase64 s fieldName = Inl (MustBeBase64 fieldName)"
    if "j < length s \<and> s ! j = CHR ''='' \<and> j + 2 < length s" for j
  proof (rule decodeStrictBase64_scan, rule notI)
    assume "scanLoop (length s) 0 False s"
    from scanLoop_padding_position [OF this, of j] that show False by simp
  qed
  show "decodeStrictBase64 s fieldName = Inl (MustBeBase64 fieldName)"
    if "j' < j \<and> j < length s \<and> s ! j' = CHR ''='' \<and> s ! j \<noteq> CHR ''=''" for j j'
  proof (rule decodeStrictBase64_scan, rule notI)
    assume "scanLoop (length s) 0 False s"
    from scanLoop_after_padding [OF this, of j' j] that show False by simp
  qed
  show "decodeStrictBase64 s fieldName = Inl (MustBeBase64 fieldName)"
    if "j < length s \<and> s ! j \<noteq> CHR ''='' \<and> \<not> isBase64CharCode (of_char (s ! j))" for j
  proof (rule decodeStrictBase64_scan, rule notI)
    assume "scanLoop (length s) 0 False s"
    from scanLoop_payload [OF this, of j] that show False by simp
  qed
  show "decodeStrictBase64 s fieldName = Inl (NotCanonicalBase64 fieldName)"
    if "length s mod 4 = 0 \<and> scanLoop (length s) 0 False s \<and> Buffer_from_base64 s \<noteq> []
        \<and> toString_base64 (Buffer_from_base64 s) \<noteq> s"
    using that by (simp add: decodeStrictBase64_def)
qed


theorem strict_base64_canonical_witness:
  "decodeStrictBase64 ''aGVsbG8gd29ybGQ='' ''data''
     = Inr [104, 101, 108, 108, 111, 32, 119, 111, 114, 108, 100]
   \<and> (\<exists>e. decodeStrictBase64 ''QUJ'' ''data'' = Inl e)
   \<and> decodeStrictBase64 ''QUJ'' ''data'' = Inl (MustBeBase64 ''data'')
   \<and> decodeStrictBase64 ''Q=JD'' ''data'' = Inl (MustBeBase64 ''data'')
   \<and> decodeStrictBase64 ''QU=D'' ''data'' = Inl (MustBeBase64 ''data'')
   \<and> decodeStrictBase64 ''QU-D'' ''data'' = Inl (MustBeBase64 ''data'')
   \<and> decodeStrictBase64 ''QUJ='' ''data'' = Inl (NotCanonicalBase64 ''data'')"
proof -
  have enc: "[104, 101, 108, 108, 111, 32, 119, 111, 114, 108, 100] \<noteq> ([] :: byte list)
      \<and> ''aGVsbG8gd29ybGQ='' = toString_base64 [104, 101, 108, 108, 111, 32, 119, 111, 114, 108, 100]"
    using demo_data_encodes [symmetric] by (simp del: toString_base64.simps)
  from strict_base64_canonical [of "''aGVsbG8gd29ybGQ=''" "''data''"
      "[104, 101, 108, 108, 111, 32, 119, 111, 114, 108, 100]", THEN conjunct1, THEN iffD2, OF enc]
  have c1: "decodeStrictBase64 ''aGVsbG8gd29ybGQ='' ''data''
     = Inr [104, 101, 108, 108, 111, 32, 119, 111, 114, 108, 100]"
    .
  have none: "\<forall>bs. bs \<noteq> [] \<longrightarrow> ''QUJ'' \<noteq> toString_base64 bs"
  proof (intro allI impI notI)
    fix bs :: "byte list"
    assume "''QUJ'' = toString_base64 bs"
    then have "length (toString_base64 bs) = length ''QUJ''" by (simp only:)
    with toString_base64_length [of bs] have "(3::nat) mod 4 = 0" by simp
    then show False by simp
  qed
  have len: "length ''QUJ'' mod 4 \<noteq> 0" by simp
  from strict_base64_canonical [of "''QUJ''" "''data''", THEN conjunct2, THEN conjunct2, THEN conjunct2, THEN conjunct1, THEN mp, OF none]
  have c2: "\<exists>e. decodeStrictBase64 ''QUJ'' ''data'' = Inl e" .
  from strict_base64_canonical [of "''QUJ''" "''data''", THEN conjunct2, THEN conjunct2, THEN conjunct2, THEN conjunct2, THEN conjunct1, THEN mp, OF len]
  have c3: "decodeStrictBase64 ''QUJ'' ''data'' = Inl (MustBeBase64 ''data'')" .
  have early: "1 < length ''Q=JD'' \<and> ''Q=JD'' ! 1 = CHR ''='' \<and> 1 + 2 < length ''Q=JD''"
    by simp
  from strict_base64_canonical [of "''Q=JD''" "''data''", THEN conjunct2, THEN conjunct2, THEN conjunct2, THEN conjunct2, THEN conjunct2, THEN conjunct1, THEN spec [of _ 1], THEN mp, OF early]
  have c4: "decodeStrictBase64 ''Q=JD'' ''data'' = Inl (MustBeBase64 ''data'')" .
  have after: "2 < (3::nat) \<and> 3 < length ''QU=D'' \<and> ''QU=D'' ! 2 = CHR ''=''
      \<and> ''QU=D'' ! 3 \<noteq> CHR ''=''"
    by simp
  from strict_base64_canonical [of "''QU=D''" "''data''", THEN conjunct2, THEN conjunct2, THEN conjunct2, THEN conjunct2, THEN conjunct2, THEN conjunct2, THEN conjunct1, THEN spec [of _ 3], THEN spec [of _ 2], THEN mp, OF after]
  have c5: "decodeStrictBase64 ''QU=D'' ''data'' = Inl (MustBeBase64 ''data'')" .
  have outside: "2 < length ''QU-D'' \<and> ''QU-D'' ! 2 \<noteq> CHR ''=''
      \<and> \<not> isBase64CharCode (of_char (''QU-D'' ! 2))"
    by (simp add: isBase64CharCode_def)
  from strict_base64_canonical [of "''QU-D''" "''data''", THEN conjunct2, THEN conjunct2, THEN conjunct2, THEN conjunct2, THEN conjunct2, THEN conjunct2, THEN conjunct2, THEN conjunct1, THEN spec [of _ 2], THEN mp, OF outside]
  have c6: "decodeStrictBase64 ''QU-D'' ''data'' = Inl (MustBeBase64 ''data'')" .
  have bits: "length ''QUJ='' mod 4 = 0 \<and> scanLoop (length ''QUJ='') 0 False ''QUJ=''
      \<and> Buffer_from_base64 ''QUJ='' \<noteq> []
      \<and> toString_base64 (Buffer_from_base64 ''QUJ='') \<noteq> ''QUJ=''"
    by (simp add: Buffer_from_base64_def List.map_filter_def unbase64_def b64char_def
        char_of_def bit_0 bit_Suc isBase64CharCode_def)
  from strict_base64_canonical [of "''QUJ=''" "''data''", THEN conjunct2, THEN conjunct2, THEN conjunct2, THEN conjunct2, THEN conjunct2, THEN conjunct2, THEN conjunct2, THEN conjunct2, THEN mp, OF bits]
  have c7: "decodeStrictBase64 ''QUJ='' ''data'' = Inl (NotCanonicalBase64 ''data'')" .
  from c1 c2 c3 c4 c5 c6 c7 show ?thesis by (intro conjI)
qed


end
